theory Spec2Isabelle
  imports Complex_Main
begin

section \<open>Tensors, memories and errors\<close>

text \<open>
  A tensor of one fixed shape is a function from the positions of that shape to its
  elements; \<open>'i\<close> enumerates the positions.  The elementwise operators of the tensor
  library act pointwise, a Python scalar is broadcast to every position, and a shape
  mismatch is excluded by typing.  Elements are real numbers: the arithmetic of the
  neurons is modelled exactly, the rounding of the floating formats is treated apart
  (section \<open>Rounded arithmetic\<close>).  A sequence \<open>x_seq\<close> of shape \<open>[T, N, *]\<close> is the list of
  its \<open>T\<close> slices.
\<close>

type_synonym 'i tensor = "'i \<Rightarrow> real"

text \<open>A registered memory such as \<open>self.v\<close> holds a Python float until the first input
  gives it a shape.\<close>

datatype 'i memory = Float_mem real | Tensor_mem "'i tensor"

definition full_like :: "'i tensor \<Rightarrow> real \<Rightarrow> 'i tensor" where
  "full_like x fill_value = (\<lambda>i. fill_value)"

definition zeros_like :: "'i tensor \<Rightarrow> 'i tensor" where
  "zeros_like x = (\<lambda>i. 0)"

definition ones_like :: "'i tensor \<Rightarrow> 'i tensor" where
  "ones_like x = (\<lambda>i. 1)"

text \<open>The value a memory contributes to an elementwise expression: a float is broadcast.\<close>

definition as_tensor :: "'i memory \<Rightarrow> 'i tensor" where
  "as_tensor m = (case m of Float_mem c \<Rightarrow> (\<lambda>i. c) | Tensor_mem t \<Rightarrow> t)"

text \<open>\<open>spike.detach()\<close> cuts the autodiff graph and keeps the values.\<close>

definition detach :: "'i tensor \<Rightarrow> 'i tensor" where
  "detach spike = spike"

text \<open>\<open>(v >= c).to(x)\<close>: the comparison as a tensor of zeros and ones.\<close>

definition ge_to :: "'i tensor \<Rightarrow> real \<Rightarrow> 'i tensor" where
  "ge_to v c = (\<lambda>i. if c \<le> v i then 1 else 0)"

datatype error =
    ValueError string
  | NotImplementedError string
  | AssertionError
  | IndexError
  | RuntimeError string
  | AttributeError string

text \<open>
  Modelled from the spec: the surrogate module is not part of the sources.  Its forward
  pass is the hard step function \<open>1[x \<ge> 0]\<close>, applied to \<open>v - v_threshold\<close>.  The neurons
  take the surrogate function as a parameter; \<open>heaviside\<close> is the instance the spec names.
\<close>

definition heaviside :: "'i tensor \<Rightarrow> 'i tensor" where
  "heaviside x = (\<lambda>i. if 0 \<le> x i then 1 else 0)"

definition sigmoid :: "real \<Rightarrow> real" where
  "sigmoid x = 1 / (1 + exp (- x))"

definition relu :: "real \<Rightarrow> real" where
  "relu x = max 0 x"

section \<open>Static kernels\<close>

subsection \<open>BaseNode\<close>

definition jit_hard_reset :: "'i tensor \<Rightarrow> 'i tensor \<Rightarrow> real \<Rightarrow> 'i tensor" where
  "jit_hard_reset v spike v_reset = (\<lambda>i. (1 - spike i) * v i + spike i * v_reset)"

definition jit_soft_reset :: "'i tensor \<Rightarrow> 'i tensor \<Rightarrow> real \<Rightarrow> 'i tensor" where
  "jit_soft_reset v spike v_threshold = (\<lambda>i. v i - spike i * v_threshold)"

subsection \<open>IFNode\<close>

definition IFNode_jit_eval_single_step_forward_hard_reset ::
  "'i tensor \<Rightarrow> 'i tensor \<Rightarrow> real \<Rightarrow> real \<Rightarrow> 'i tensor \<times> 'i tensor" where
  "IFNode_jit_eval_single_step_forward_hard_reset x v v_threshold v_reset =
     (let v = (\<lambda>i. v i + x i);
          spike = ge_to v v_threshold;
          v = (\<lambda>i. v_reset * spike i + (1 - spike i) * v i)
      in (spike, v))"

definition IFNode_jit_eval_single_step_forward_soft_reset ::
  "'i tensor \<Rightarrow> 'i tensor \<Rightarrow> real \<Rightarrow> 'i tensor \<times> 'i tensor" where
  "IFNode_jit_eval_single_step_forward_soft_reset x v v_threshold =
     (let v = (\<lambda>i. v i + x i);
          spike = ge_to v v_threshold;
          v = (\<lambda>i. v i - spike i * v_threshold)
      in (spike, v))"

fun IFNode_jit_eval_multi_step_forward_hard_reset ::
  "'i tensor list \<Rightarrow> 'i tensor \<Rightarrow> real \<Rightarrow> real \<Rightarrow> 'i tensor list \<times> 'i tensor" where
  "IFNode_jit_eval_multi_step_forward_hard_reset [] v v_threshold v_reset = ([], v)"
| "IFNode_jit_eval_multi_step_forward_hard_reset (x # x_seq) v v_threshold v_reset =
     (let v = (\<lambda>i. v i + x i);
          spike = ge_to v v_threshold;
          v = (\<lambda>i. v_reset * spike i + (1 - spike i) * v i);
          (spike_seq, v_last) =
             IFNode_jit_eval_multi_step_forward_hard_reset x_seq v v_threshold v_reset
      in (spike # spike_seq, v_last))"

fun IFNode_jit_eval_multi_step_forward_hard_reset_with_v_seq ::
  "'i tensor list \<Rightarrow> 'i tensor \<Rightarrow> real \<Rightarrow> real
     \<Rightarrow> 'i tensor list \<times> 'i tensor \<times> 'i tensor list" where
  "IFNode_jit_eval_multi_step_forward_hard_reset_with_v_seq [] v v_threshold v_reset =
     ([], v, [])"
| "IFNode_jit_eval_multi_step_forward_hard_reset_with_v_seq (x # x_seq) v v_threshold v_reset =
     (let v = (\<lambda>i. v i + x i);
          spike = ge_to v v_threshold;
          v = (\<lambda>i. v_reset * spike i + (1 - spike i) * v i);
          (spike_seq, v_last, v_seq) =
             IFNode_jit_eval_multi_step_forward_hard_reset_with_v_seq x_seq v v_threshold v_reset
      in (spike # spike_seq, v_last, v # v_seq))"

fun IFNode_jit_eval_multi_step_forward_soft_reset ::
  "'i tensor list \<Rightarrow> 'i tensor \<Rightarrow> real \<Rightarrow> 'i tensor list \<times> 'i tensor" where
  "IFNode_jit_eval_multi_step_forward_soft_reset [] v v_threshold = ([], v)"
| "IFNode_jit_eval_multi_step_forward_soft_reset (x # x_seq) v v_threshold =
     (let v = (\<lambda>i. v i + x i);
          spike = ge_to v v_threshold;
          v = (\<lambda>i. v i - spike i * v_threshold);
          (spike_seq, v_last) = IFNode_jit_eval_multi_step_forward_soft_reset x_seq v v_threshold
      in (spike # spike_seq, v_last))"

fun IFNode_jit_eval_multi_step_forward_soft_reset_with_v_seq ::
  "'i tensor list \<Rightarrow> 'i tensor \<Rightarrow> real \<Rightarrow> 'i tensor list \<times> 'i tensor \<times> 'i tensor list" where
  "IFNode_jit_eval_multi_step_forward_soft_reset_with_v_seq [] v v_threshold = ([], v, [])"
| "IFNode_jit_eval_multi_step_forward_soft_reset_with_v_seq (x # x_seq) v v_threshold =
     (let v = (\<lambda>i. v i + x i);
          spike = ge_to v v_threshold;
          v = (\<lambda>i. v i - spike i * v_threshold);
          (spike_seq, v_last, v_seq) =
             IFNode_jit_eval_multi_step_forward_soft_reset_with_v_seq x_seq v v_threshold
      in (spike # spike_seq, v_last, v # v_seq))"

subsection \<open>LIFNode\<close>

definition LIFNode_neuronal_charge_decay_input_reset0 ::
  "'i tensor \<Rightarrow> 'i tensor \<Rightarrow> real \<Rightarrow> 'i tensor" where
  "LIFNode_neuronal_charge_decay_input_reset0 x v tau = (\<lambda>i. v i + (x i - v i) / tau)"

definition LIFNode_neuronal_charge_decay_input ::
  "'i tensor \<Rightarrow> 'i tensor \<Rightarrow> real \<Rightarrow> real \<Rightarrow> 'i tensor" where
  "LIFNode_neuronal_charge_decay_input x v v_reset tau =
     (\<lambda>i. v i + (x i - (v i - v_reset)) / tau)"

definition LIFNode_neuronal_charge_no_decay_input_reset0 ::
  "'i tensor \<Rightarrow> 'i tensor \<Rightarrow> real \<Rightarrow> 'i tensor" where
  "LIFNode_neuronal_charge_no_decay_input_reset0 x v tau = (\<lambda>i. v i * (1 - 1 / tau) + x i)"

definition LIFNode_neuronal_charge_no_decay_input ::
  "'i tensor \<Rightarrow> 'i tensor \<Rightarrow> real \<Rightarrow> real \<Rightarrow> 'i tensor" where
  "LIFNode_neuronal_charge_no_decay_input x v v_reset tau =
     (\<lambda>i. v i - (v i - v_reset) / tau + x i)"

definition LIFNode_jit_eval_single_step_forward_hard_reset_decay_input ::
  "'i tensor \<Rightarrow> 'i tensor \<Rightarrow> real \<Rightarrow> real \<Rightarrow> real \<Rightarrow> 'i tensor \<times> 'i tensor" where
  "LIFNode_jit_eval_single_step_forward_hard_reset_decay_input x v v_threshold v_reset tau =
     (let v = (\<lambda>i. v i + (x i - (v i - v_reset)) / tau);
          spike = ge_to v v_threshold;
          v = (\<lambda>i. v_reset * spike i + (1 - spike i) * v i)
      in (spike, v))"

definition LIFNode_jit_eval_single_step_forward_hard_reset_no_decay_input ::
  "'i tensor \<Rightarrow> 'i tensor \<Rightarrow> real \<Rightarrow> real \<Rightarrow> real \<Rightarrow> 'i tensor \<times> 'i tensor" where
  "LIFNode_jit_eval_single_step_forward_hard_reset_no_decay_input x v v_threshold v_reset tau =
     (let v = (\<lambda>i. v i - (v i - v_reset) / tau + x i);
          spike = ge_to v v_threshold;
          v = (\<lambda>i. v_reset * spike i + (1 - spike i) * v i)
      in (spike, v))"

definition LIFNode_jit_eval_single_step_forward_soft_reset_decay_input ::
  "'i tensor \<Rightarrow> 'i tensor \<Rightarrow> real \<Rightarrow> real \<Rightarrow> 'i tensor \<times> 'i tensor" where
  "LIFNode_jit_eval_single_step_forward_soft_reset_decay_input x v v_threshold tau =
     (let v = (\<lambda>i. v i + (x i - v i) / tau);
          spike = ge_to v v_threshold;
          v = (\<lambda>i. v i - spike i * v_threshold)
      in (spike, v))"

definition LIFNode_jit_eval_single_step_forward_soft_reset_no_decay_input ::
  "'i tensor \<Rightarrow> 'i tensor \<Rightarrow> real \<Rightarrow> real \<Rightarrow> 'i tensor \<times> 'i tensor" where
  "LIFNode_jit_eval_single_step_forward_soft_reset_no_decay_input x v v_threshold tau =
     (let v = (\<lambda>i. v i * (1 - 1 / tau) + x i);
          spike = ge_to v v_threshold;
          v = (\<lambda>i. v i - spike i * v_threshold)
      in (spike, v))"

fun LIFNode_jit_eval_multi_step_forward_hard_reset_decay_input ::
  "'i tensor list \<Rightarrow> 'i tensor \<Rightarrow> real \<Rightarrow> real \<Rightarrow> real
     \<Rightarrow> 'i tensor list \<times> 'i tensor" where
  "LIFNode_jit_eval_multi_step_forward_hard_reset_decay_input [] v v_threshold v_reset tau = ([], v)"
| "LIFNode_jit_eval_multi_step_forward_hard_reset_decay_input (x # x_seq) v v_threshold v_reset tau =
     (let v = (\<lambda>i. v i + (x i - (v i - v_reset)) / tau);
          spike = ge_to v v_threshold;
          v = (\<lambda>i. v_reset * spike i + (1 - spike i) * v i);
          (spike_seq, v_last) = LIFNode_jit_eval_multi_step_forward_hard_reset_decay_input x_seq v v_threshold v_reset tau
      in (spike # spike_seq, v_last))"

fun LIFNode_jit_eval_multi_step_forward_hard_reset_decay_input_with_v_seq ::
  "'i tensor list \<Rightarrow> 'i tensor \<Rightarrow> real \<Rightarrow> real \<Rightarrow> real
     \<Rightarrow> 'i tensor list \<times> 'i tensor \<times> 'i tensor list" where
  "LIFNode_jit_eval_multi_step_forward_hard_reset_decay_input_with_v_seq [] v v_threshold v_reset tau = ([], v, [])"
| "LIFNode_jit_eval_multi_step_forward_hard_reset_decay_input_with_v_seq (x # x_seq) v v_threshold v_reset tau =
     (let v = (\<lambda>i. v i + (x i - (v i - v_reset)) / tau);
          spike = ge_to v v_threshold;
          v = (\<lambda>i. v_reset * spike i + (1 - spike i) * v i);
          (spike_seq, v_last, v_seq) = LIFNode_jit_eval_multi_step_forward_hard_reset_decay_input_with_v_seq x_seq v v_threshold v_reset tau
      in (spike # spike_seq, v_last, v # v_seq))"

fun LIFNode_jit_eval_multi_step_forward_hard_reset_no_decay_input ::
  "'i tensor list \<Rightarrow> 'i tensor \<Rightarrow> real \<Rightarrow> real \<Rightarrow> real
     \<Rightarrow> 'i tensor list \<times> 'i tensor" where
  "LIFNode_jit_eval_multi_step_forward_hard_reset_no_decay_input [] v v_threshold v_reset tau = ([], v)"
| "LIFNode_jit_eval_multi_step_forward_hard_reset_no_decay_input (x # x_seq) v v_threshold v_reset tau =
     (let v = (\<lambda>i. v i - (v i - v_reset) / tau + x i);
          spike = ge_to v v_threshold;
          v = (\<lambda>i. v_reset * spike i + (1 - spike i) * v i);
          (spike_seq, v_last) = LIFNode_jit_eval_multi_step_forward_hard_reset_no_decay_input x_seq v v_threshold v_reset tau
      in (spike # spike_seq, v_last))"

fun LIFNode_jit_eval_multi_step_forward_hard_reset_no_decay_input_with_v_seq ::
  "'i tensor list \<Rightarrow> 'i tensor \<Rightarrow> real \<Rightarrow> real \<Rightarrow> real
     \<Rightarrow> 'i tensor list \<times> 'i tensor \<times> 'i tensor list" where
  "LIFNode_jit_eval_multi_step_forward_hard_reset_no_decay_input_with_v_seq [] v v_threshold v_reset tau = ([], v, [])"
| "LIFNode_jit_eval_multi_step_forward_hard_reset_no_decay_input_with_v_seq (x # x_seq) v v_threshold v_reset tau =
     (let v = (\<lambda>i. v i - (v i - v_reset) / tau + x i);
          spike = ge_to v v_threshold;
          v = (\<lambda>i. v_reset * spike i + (1 - spike i) * v i);
          (spike_seq, v_last, v_seq) = LIFNode_jit_eval_multi_step_forward_hard_reset_no_decay_input_with_v_seq x_seq v v_threshold v_reset tau
      in (spike # spike_seq, v_last, v # v_seq))"

fun LIFNode_jit_eval_multi_step_forward_soft_reset_decay_input ::
  "'i tensor list \<Rightarrow> 'i tensor \<Rightarrow> real \<Rightarrow> real
     \<Rightarrow> 'i tensor list \<times> 'i tensor" where
  "LIFNode_jit_eval_multi_step_forward_soft_reset_decay_input [] v v_threshold tau = ([], v)"
| "LIFNode_jit_eval_multi_step_forward_soft_reset_decay_input (x # x_seq) v v_threshold tau =
     (let v = (\<lambda>i. v i + (x i - v i) / tau);
          spike = ge_to v v_threshold;
          v = (\<lambda>i. v i - spike i * v_threshold);
          (spike_seq, v_last) = LIFNode_jit_eval_multi_step_forward_soft_reset_decay_input x_seq v v_threshold tau
      in (spike # spike_seq, v_last))"

fun LIFNode_jit_eval_multi_step_forward_soft_reset_decay_input_with_v_seq ::
  "'i tensor list \<Rightarrow> 'i tensor \<Rightarrow> real \<Rightarrow> real
     \<Rightarrow> 'i tensor list \<times> 'i tensor \<times> 'i tensor list" where
  "LIFNode_jit_eval_multi_step_forward_soft_reset_decay_input_with_v_seq [] v v_threshold tau = ([], v, [])"
| "LIFNode_jit_eval_multi_step_forward_soft_reset_decay_input_with_v_seq (x # x_seq) v v_threshold tau =
     (let v = (\<lambda>i. v i + (x i - v i) / tau);
          spike = ge_to v v_threshold;
          v = (\<lambda>i. v i - spike i * v_threshold);
          (spike_seq, v_last, v_seq) = LIFNode_jit_eval_multi_step_forward_soft_reset_decay_input_with_v_seq x_seq v v_threshold tau
      in (spike # spike_seq, v_last, v # v_seq))"

fun LIFNode_jit_eval_multi_step_forward_soft_reset_no_decay_input ::
  "'i tensor list \<Rightarrow> 'i tensor \<Rightarrow> real \<Rightarrow> real
     \<Rightarrow> 'i tensor list \<times> 'i tensor" where
  "LIFNode_jit_eval_multi_step_forward_soft_reset_no_decay_input [] v v_threshold tau = ([], v)"
| "LIFNode_jit_eval_multi_step_forward_soft_reset_no_decay_input (x # x_seq) v v_threshold tau =
     (let v = (\<lambda>i. v i * (1 - 1 / tau) + x i);
          spike = ge_to v v_threshold;
          v = (\<lambda>i. v i - spike i * v_threshold);
          (spike_seq, v_last) = LIFNode_jit_eval_multi_step_forward_soft_reset_no_decay_input x_seq v v_threshold tau
      in (spike # spike_seq, v_last))"

fun LIFNode_jit_eval_multi_step_forward_soft_reset_no_decay_input_with_v_seq ::
  "'i tensor list \<Rightarrow> 'i tensor \<Rightarrow> real \<Rightarrow> real
     \<Rightarrow> 'i tensor list \<times> 'i tensor \<times> 'i tensor list" where
  "LIFNode_jit_eval_multi_step_forward_soft_reset_no_decay_input_with_v_seq [] v v_threshold tau = ([], v, [])"
| "LIFNode_jit_eval_multi_step_forward_soft_reset_no_decay_input_with_v_seq (x # x_seq) v v_threshold tau =
     (let v = (\<lambda>i. v i * (1 - 1 / tau) + x i);
          spike = ge_to v v_threshold;
          v = (\<lambda>i. v i - spike i * v_threshold);
          (spike_seq, v_last, v_seq) = LIFNode_jit_eval_multi_step_forward_soft_reset_no_decay_input_with_v_seq x_seq v v_threshold tau
      in (spike # spike_seq, v_last, v # v_seq))"

subsection \<open>KLIFNode\<close>

text \<open>\<open>k\<close> is a parameter tensor with a single element.\<close>

definition KLIFNode_neuronal_charge_decay_input ::
  "'i tensor \<Rightarrow> 'i tensor \<Rightarrow> real \<Rightarrow> real \<Rightarrow> real \<Rightarrow> 'i tensor" where
  "KLIFNode_neuronal_charge_decay_input x v v_reset tau k =
     (let v = (\<lambda>i. v i + (x i - (v i - v_reset)) / tau);
          v = (\<lambda>i. relu (k * v i))
      in v)"

definition KLIFNode_neuronal_charge_no_decay_input ::
  "'i tensor \<Rightarrow> 'i tensor \<Rightarrow> real \<Rightarrow> real \<Rightarrow> real \<Rightarrow> 'i tensor" where
  "KLIFNode_neuronal_charge_no_decay_input x v v_reset tau k =
     (let v = (\<lambda>i. v i - (v i - v_reset) / tau + x i);
          v = (\<lambda>i. relu (k * v i))
      in v)"

subsection \<open>OTTTLIFNode\<close>

definition track_trace :: "'i tensor \<Rightarrow> 'i tensor \<Rightarrow> real \<Rightarrow> 'i tensor" where
  "track_trace spike trace tau = (\<lambda>i. trace i * (1 - 1 / tau) + spike i)"

subsection \<open>The backward passes of the DSR neurons\<close>





section \<open>Rounded arithmetic\<close>


definition fl_neuronal_charge_decay_input_reset0 ::
  "(real \<Rightarrow> real) \<Rightarrow> real \<Rightarrow> real \<Rightarrow> real \<Rightarrow> real" where
  "fl_neuronal_charge_decay_input_reset0 rnd x v tau = rnd (v + rnd (rnd (x - v) / rnd tau))"

definition fl_neuronal_charge_decay_input ::
  "(real \<Rightarrow> real) \<Rightarrow> real \<Rightarrow> real \<Rightarrow> real \<Rightarrow> real \<Rightarrow> real" where
  "fl_neuronal_charge_decay_input rnd x v v_reset tau =
     rnd (v + rnd (rnd (x - rnd (v - rnd v_reset)) / rnd tau))"

definition fl_neuronal_charge_no_decay_input_reset0 ::
  "(real \<Rightarrow> real) \<Rightarrow> (real \<Rightarrow> real) \<Rightarrow> real \<Rightarrow> real \<Rightarrow> real \<Rightarrow> real" where
  "fl_neuronal_charge_no_decay_input_reset0 rnd rnd_py x v tau =
     rnd (rnd (v * rnd (rnd_py (1 - rnd_py (1 / tau)))) + x)"

definition fl_neuronal_charge_no_decay_input ::
  "(real \<Rightarrow> real) \<Rightarrow> real \<Rightarrow> real \<Rightarrow> real \<Rightarrow> real \<Rightarrow> real" where
  "fl_neuronal_charge_no_decay_input rnd x v v_reset tau =
     rnd (rnd (v - rnd (rnd (v - rnd v_reset) / rnd tau)) + x)"

text \<open>
  Round to nearest, ties to even, on a significand of \<open>p\<close> bits (the exponent range is
  not bounded): binary32 is \<open>rne 24\<close>, binary64 is \<open>rne 53\<close>.
\<close>

definition round_half_even :: "real \<Rightarrow> int" where
  "round_half_even r =
     (let n = \<lfloor>r\<rfloor>; d = r - of_int n
      in if d < 1 / 2 then n else if 1 / 2 < d then n + 1 else if even n then n else n + 1)"

definition rne :: "nat \<Rightarrow> real \<Rightarrow> real" where
  "rne p x =
     (if x = 0 then 0
      else (let e = \<lfloor>log 2 \<bar>x\<bar>\<rfloor> - int p + 1
            in of_int (round_half_even (x / 2 powr of_int e)) * 2 powr of_int e))"

definition binary32 :: "real \<Rightarrow> real" where
  "binary32 = rne 24"

definition binary64 :: "real \<Rightarrow> real" where
  "binary64 = rne 53"

section \<open>GatedLIFNode\<close>

text \<open>
  The learnable parameters are given at every position of the input, that is after the
  broadcasting \<open>view(1, -1, 1, 1)\<close>; \<open>conduct\<close> has one such tensor per time step.
\<close>

record 'i gated_lif_node =
  T :: nat
  alpha :: "'i tensor"
  beta :: "'i tensor"
  gamma :: "'i tensor"
  tau :: "'i tensor"
  v_threshold :: "'i tensor"
  linear_decay :: "'i tensor"
  v_subreset :: "'i tensor"
  conduct :: "'i tensor list"
  surrogate_function :: "'i tensor \<Rightarrow> 'i tensor"
  v :: "'i memory"
  u :: "'i memory"

definition GatedLIFNode_neuronal_charge ::
  "'i gated_lif_node \<Rightarrow> 'i tensor \<Rightarrow> 'i tensor \<Rightarrow> 'i tensor \<Rightarrow> nat \<Rightarrow> 'i gated_lif_node" where
  "GatedLIFNode_neuronal_charge self x al be t =
     (let input = (\<lambda>i. x i * (1 - be i * (1 - sigmoid ((gated_lif_node.conduct self ! t) i))))
      in self\<lparr>gated_lif_node.u := Tensor_mem (\<lambda>i.
           ((1 - al i * (1 - sigmoid (gated_lif_node.tau self i)))
               * as_tensor (gated_lif_node.v self) i
             - (1 - al i) * sigmoid (gated_lif_node.linear_decay self i))
           + input i)\<rparr>)"

definition GatedLIFNode_neuronal_reset ::
  "'i gated_lif_node \<Rightarrow> 'i tensor \<Rightarrow> 'i tensor \<Rightarrow> 'i tensor \<Rightarrow> 'i gated_lif_node" where
  "GatedLIFNode_neuronal_reset self spike al ga =
     self\<lparr>gated_lif_node.u := Tensor_mem (\<lambda>i.
       as_tensor (gated_lif_node.u self) i
         - (1 - al i * (1 - sigmoid (gated_lif_node.tau self i)))
             * as_tensor (gated_lif_node.v self) i * ga i * spike i
         - (1 - ga i) * sigmoid (gated_lif_node.v_subreset self i) * spike i)\<rparr>"

definition GatedLIFNode_neuronal_fire :: "'i gated_lif_node \<Rightarrow> 'i tensor" where
  "GatedLIFNode_neuronal_fire self =
     gated_lif_node.surrogate_function self
       (\<lambda>i. as_tensor (gated_lif_node.u self) i - sigmoid (gated_lif_node.v_threshold self i))"

text \<open>The loop \<open>for t in range(self.T)\<close>; \<open>spike\<close> is the output of the step before.\<close>

fun GatedLIFNode_loop ::
  "'i gated_lif_node \<Rightarrow> 'i tensor \<Rightarrow> 'i tensor \<Rightarrow> 'i tensor \<Rightarrow> 'i tensor list \<Rightarrow> 'i tensor
     \<Rightarrow> nat list \<Rightarrow> error + 'i tensor list \<times> 'i gated_lif_node" where
  "GatedLIFNode_loop self al be ga x_seq spike [] = Inr ([], self)"
| "GatedLIFNode_loop self al be ga x_seq spike (t # ts) =
     (if length x_seq \<le> t \<or> length (gated_lif_node.conduct self) \<le> t then Inl IndexError
      else
        (let self = GatedLIFNode_neuronal_charge self (x_seq ! t) al be t;
             self = GatedLIFNode_neuronal_reset self spike al ga;
             spike = GatedLIFNode_neuronal_fire self;
             self = self\<lparr>gated_lif_node.v := gated_lif_node.u self\<rparr>
         in case GatedLIFNode_loop self al be ga x_seq spike ts of
              Inl e \<Rightarrow> Inl e
            | Inr (y_seq, self1) \<Rightarrow> Inr (spike # y_seq, self1)))"

definition GatedLIFNode_multi_step_forward ::
  "'i gated_lif_node \<Rightarrow> 'i tensor list \<Rightarrow> error + 'i tensor list \<times> 'i gated_lif_node" where
  "GatedLIFNode_multi_step_forward self x_seq =
     (let al = (\<lambda>i. sigmoid (gated_lif_node.alpha self i));
          be = (\<lambda>i. sigmoid (gated_lif_node.beta self i));
          ga = (\<lambda>i. sigmoid (gated_lif_node.gamma self i));
          spike = (\<lambda>i. 0)
      in case GatedLIFNode_loop self al be ga x_seq spike [0 ..< gated_lif_node.T self] of
           Inl e \<Rightarrow> Inl e
         | Inr (y_seq, self1) \<Rightarrow>
             if y_seq = [] then Inl (RuntimeError ''stack expects a non-empty TensorList'')
             else Inr (y_seq, self1))"

section \<open>OTTTLIFNode\<close>

text \<open>
  The constructor removes the memory \<open>v\<close>; \<open>v\<close> and \<open>trace\<close> are buffers registered by the
  first forward call and deleted by \<open>reset()\<close>: an absent attribute is \<open>None\<close>.
\<close>

record 'i otttlif_node =
  tau :: real
  decay_input :: bool
  v_threshold :: real
  v_reset :: "real option"
  surrogate_function :: "'i tensor \<Rightarrow> 'i tensor"
  detach_reset :: bool
  step_mode :: string
  backend :: string
  training :: bool
  v :: "'i tensor option"
  trace :: "'i tensor option"

text \<open>What \<open>single_step_forward\<close> returns: the list \<open>[spike, self.trace]\<close>, or the spike.\<close>

datatype 'i ottt_output = Spike_and_trace "'i tensor" "'i tensor" | Spike_only "'i tensor"

definition OTTTLIFNode_supported_backends :: "'i otttlif_node \<Rightarrow> error + string list" where
  "OTTTLIFNode_supported_backends self =
     (if otttlif_node.step_mode self = ''s'' then Inr [''torch'']
      else Inl (ValueError (otttlif_node.step_mode self)))"

definition OTTTLIFNode_neuronal_charge ::
  "'i otttlif_node \<Rightarrow> 'i tensor \<Rightarrow> error + 'i otttlif_node" where
  "OTTTLIFNode_neuronal_charge self x =
     (case otttlif_node.v self of
        None \<Rightarrow> Inl (AttributeError ''v'')
      | Some v0 \<Rightarrow>
          (let v0 = detach v0 in
           if otttlif_node.decay_input self then
             (case otttlif_node.v_reset self of
                None \<Rightarrow> Inr (self\<lparr>otttlif_node.v := Some
                  (LIFNode_neuronal_charge_decay_input_reset0 x v0 (otttlif_node.tau self))\<rparr>)
              | Some r \<Rightarrow>
                  if r = 0 then Inr (self\<lparr>otttlif_node.v := Some
                    (LIFNode_neuronal_charge_decay_input_reset0 x v0 (otttlif_node.tau self))\<rparr>)
                  else Inr (self\<lparr>otttlif_node.v := Some
                    (LIFNode_neuronal_charge_decay_input x v0 r (otttlif_node.tau self))\<rparr>))
           else
             (case otttlif_node.v_reset self of
                None \<Rightarrow> Inr (self\<lparr>otttlif_node.v := Some
                  (LIFNode_neuronal_charge_no_decay_input_reset0 x v0 (otttlif_node.tau self))\<rparr>)
              | Some r \<Rightarrow>
                  if r = 0 then Inr (self\<lparr>otttlif_node.v := Some
                    (LIFNode_neuronal_charge_no_decay_input_reset0 x v0 (otttlif_node.tau self))\<rparr>)
                  else Inr (self\<lparr>otttlif_node.v := Some
                    (LIFNode_neuronal_charge_no_decay_input x v0 r (otttlif_node.tau self))\<rparr>))))"

text \<open>\<open>neuronal_fire\<close> and \<open>neuronal_reset\<close> are those of BaseNode, on the buffer \<open>v\<close>.\<close>

definition OTTTLIFNode_neuronal_fire :: "'i otttlif_node \<Rightarrow> error + 'i tensor" where
  "OTTTLIFNode_neuronal_fire self =
     (case otttlif_node.v self of
        None \<Rightarrow> Inl (AttributeError ''v'')
      | Some v0 \<Rightarrow>
          Inr (otttlif_node.surrogate_function self
                 (\<lambda>i. v0 i - otttlif_node.v_threshold self)))"

definition OTTTLIFNode_neuronal_reset ::
  "'i otttlif_node \<Rightarrow> 'i tensor \<Rightarrow> error + 'i otttlif_node" where
  "OTTTLIFNode_neuronal_reset self spike =
     (let spike_d = (if otttlif_node.detach_reset self then detach spike else spike) in
      case otttlif_node.v self of
        None \<Rightarrow> Inl (AttributeError ''v'')
      | Some v0 \<Rightarrow>
          (case otttlif_node.v_reset self of
             None \<Rightarrow> Inr (self\<lparr>otttlif_node.v :=
                        Some (jit_soft_reset v0 spike_d (otttlif_node.v_threshold self))\<rparr>)
           | Some r \<Rightarrow> Inr (self\<lparr>otttlif_node.v := Some (jit_hard_reset v0 spike_d r)\<rparr>)))"

definition OTTTLIFNode_single_step_forward ::
  "'i otttlif_node \<Rightarrow> 'i tensor \<Rightarrow> error + 'i ottt_output \<times> 'i otttlif_node" where
  "OTTTLIFNode_single_step_forward self x =
     (let self =
            (case otttlif_node.v self of
               Some v0 \<Rightarrow> self
             | None \<Rightarrow>
                 (case otttlif_node.v_reset self of
                    None \<Rightarrow> self\<lparr>otttlif_node.v := Some (zeros_like x)\<rparr>
                  | Some r \<Rightarrow> self\<lparr>otttlif_node.v := Some (\<lambda>i. ones_like x i * r)\<rparr>))
      in
      if otttlif_node.training self then
        (let self =
               (case otttlif_node.trace self of
                  Some tr \<Rightarrow> self
                | None \<Rightarrow> self\<lparr>otttlif_node.trace := Some (zeros_like x)\<rparr>)
         in
         if otttlif_node.backend self = ''torch'' then
           (case OTTTLIFNode_neuronal_charge self x of
              Inl e \<Rightarrow> Inl e
            | Inr self1 \<Rightarrow>
                (case OTTTLIFNode_neuronal_fire self1 of
                   Inl e \<Rightarrow> Inl e
                 | Inr spike \<Rightarrow>
                     (case OTTTLIFNode_neuronal_reset self1 spike of
                        Inl e \<Rightarrow> Inl e
                      | Inr self2 \<Rightarrow>
                          (case otttlif_node.trace self2 of
                             None \<Rightarrow> Inl (AttributeError ''trace'')
                           | Some tr \<Rightarrow>
                               (let tr1 = track_trace spike tr (otttlif_node.tau self2)
                                in Inr (Spike_and_trace spike tr1,
                                        self2\<lparr>otttlif_node.trace := Some tr1\<rparr>))))))
         else Inl (ValueError (otttlif_node.backend self)))
      else
        (case otttlif_node.v self of
           None \<Rightarrow> Inl (AttributeError ''v'')
         | Some v0 \<Rightarrow>
             (case otttlif_node.v_reset self of
                None \<Rightarrow>
                  (if otttlif_node.decay_input self then
                     (let (spike, v1) =
                            LIFNode_jit_eval_single_step_forward_soft_reset_decay_input x v0
                              (otttlif_node.v_threshold self) (otttlif_node.tau self)
                      in Inr (Spike_only spike, self\<lparr>otttlif_node.v := Some v1\<rparr>))
                   else
                     (let (spike, v1) =
                            LIFNode_jit_eval_single_step_forward_soft_reset_no_decay_input x v0
                              (otttlif_node.v_threshold self) (otttlif_node.tau self)
                      in Inr (Spike_only spike, self\<lparr>otttlif_node.v := Some v1\<rparr>)))
              | Some r \<Rightarrow>
                  (if otttlif_node.decay_input self then
                     (let (spike, v1) =
                            LIFNode_jit_eval_single_step_forward_hard_reset_decay_input x v0
                              (otttlif_node.v_threshold self) r (otttlif_node.tau self)
                      in Inr (Spike_only spike, self\<lparr>otttlif_node.v := Some v1\<rparr>))
                   else
                     (let (spike, v1) =
                            LIFNode_jit_eval_single_step_forward_hard_reset_no_decay_input x v0
                              (otttlif_node.v_threshold self) r (otttlif_node.tau self)
                      in Inr (Spike_only spike, self\<lparr>otttlif_node.v := Some v1\<rparr>))))))"

text \<open>
  The constructor: that of LIFNode (which asserts \<open>tau > 1\<close>), then the assertion on the
  step mode, then the memory \<open>v\<close> is removed.  A new module is in training mode.
\<close>

definition OTTTLIFNode_init ::
  "real \<Rightarrow> bool \<Rightarrow> real \<Rightarrow> real option \<Rightarrow> ('i tensor \<Rightarrow> 'i tensor) \<Rightarrow> bool \<Rightarrow> string
     \<Rightarrow> string \<Rightarrow> bool \<Rightarrow> error + 'i otttlif_node" where
  "OTTTLIFNode_init tau' decay_input' th vr sg dr sm be sv =
     (if \<not> 1 < tau' then Inl AssertionError
      else if sm \<noteq> ''s'' then Inl AssertionError
      else Inr \<lparr>otttlif_node.tau = tau', otttlif_node.decay_input = decay_input',
                otttlif_node.v_threshold = th, otttlif_node.v_reset = vr,
                otttlif_node.surrogate_function = sg, otttlif_node.detach_reset = dr,
                otttlif_node.step_mode = sm, otttlif_node.backend = be,
                otttlif_node.training = True, otttlif_node.v = None,
                otttlif_node.trace = None\<rparr>)"

section \<open>BaseNode\<close>

text \<open>
  The attributes of a neuron object.  \<open>training\<close> is the flag of the module system
  (set by \<open>train()\<close> and \<open>eval()\<close>, true after construction).
\<close>

record 'i base_node =
  v_threshold :: real
  v_reset :: "real option"
  surrogate_function :: "'i tensor \<Rightarrow> 'i tensor"
  detach_reset :: bool
  step_mode :: string
  backend :: string
  store_v_seq :: bool
  training :: bool
  v :: "'i memory"
  v_seq :: "'i tensor list option"

definition BaseNode_init ::
  "real \<Rightarrow> real option \<Rightarrow> ('i tensor \<Rightarrow> 'i tensor) \<Rightarrow> bool \<Rightarrow> string \<Rightarrow> string \<Rightarrow> bool
     \<Rightarrow> 'i base_node" where
  "BaseNode_init th vr sg dr sm be sv =
     \<lparr>v_threshold = th, v_reset = vr, surrogate_function = sg, detach_reset = dr,
      step_mode = sm, backend = be, store_v_seq = sv, training = True,
      v = (case vr of None \<Rightarrow> Float_mem 0 | Some r \<Rightarrow> Float_mem r), v_seq = None\<rparr>"

definition neuronal_fire :: "('i, 'm) base_node_scheme \<Rightarrow> 'i tensor" where
  "neuronal_fire self = surrogate_function self (\<lambda>i. as_tensor (v self) i - v_threshold self)"

definition neuronal_reset ::
  "('i, 'm) base_node_scheme \<Rightarrow> 'i tensor \<Rightarrow> ('i, 'm) base_node_scheme" where
  "neuronal_reset self spike =
     (let spike_d = (if detach_reset self then detach spike else spike) in
      case v_reset self of
        None \<Rightarrow>
          self\<lparr>v := Tensor_mem (jit_soft_reset (as_tensor (v self)) spike_d (v_threshold self))\<rparr>
      | Some r \<Rightarrow>
          self\<lparr>v := Tensor_mem (jit_hard_reset (as_tensor (v self)) spike_d r)\<rparr>)"

definition v_float_to_tensor ::
  "('i, 'm) base_node_scheme \<Rightarrow> 'i tensor \<Rightarrow> ('i, 'm) base_node_scheme" where
  "v_float_to_tensor self x =
     (case v self of
        Float_mem v_init \<Rightarrow> self\<lparr>v := Tensor_mem (full_like x v_init)\<rparr>
      | Tensor_mem t \<Rightarrow> self)"

text \<open>
  \<open>single_step_forward\<close> calls the methods \<open>neuronal_charge\<close>, \<open>neuronal_fire\<close> and
  \<open>neuronal_reset\<close> of the object's class; the model takes the three as arguments.
\<close>

definition BaseNode_single_step_forward ::
  "(('i, 'm) base_node_scheme \<Rightarrow> 'i tensor \<Rightarrow> ('i, 'm) base_node_scheme)
     \<Rightarrow> (('i, 'm) base_node_scheme \<Rightarrow> 'i tensor)
     \<Rightarrow> (('i, 'm) base_node_scheme \<Rightarrow> 'i tensor \<Rightarrow> ('i, 'm) base_node_scheme)
     \<Rightarrow> ('i, 'm) base_node_scheme \<Rightarrow> 'i tensor
     \<Rightarrow> 'i tensor \<times> ('i, 'm) base_node_scheme" where
  "BaseNode_single_step_forward charge fire reset self x =
     (let self = v_float_to_tensor self x;
          self = charge self x;
          spike = fire self;
          self = reset self spike
      in (spike, self))"

text \<open>
  The loop of \<open>multi_step_forward\<close>; \<open>single_step\<close> is the \<open>single_step_forward\<close> of the
  object's class, which may raise.  \<open>torch.stack\<close> raises on an empty list.
\<close>

fun BaseNode_multi_step_loop ::
  "(('i, 'm) base_node_scheme \<Rightarrow> 'i tensor \<Rightarrow> error + 'i tensor \<times> ('i, 'm) base_node_scheme)
     \<Rightarrow> ('i, 'm) base_node_scheme \<Rightarrow> 'i tensor list
     \<Rightarrow> error + 'i tensor list \<times> 'i tensor list \<times> ('i, 'm) base_node_scheme" where
  "BaseNode_multi_step_loop single_step self [] = Inr ([], [], self)"
| "BaseNode_multi_step_loop single_step self (x # x_seq) =
     (case single_step self x of
        Inl e \<Rightarrow> Inl e
      | Inr (y, self1) \<Rightarrow>
          (case BaseNode_multi_step_loop single_step self1 x_seq of
             Inl e \<Rightarrow> Inl e
           | Inr (y_seq, vs, self2) \<Rightarrow>
               Inr (y # y_seq,
                    (if store_v_seq self1 then as_tensor (v self1) # vs else vs),
                    self2)))"

definition BaseNode_multi_step_forward ::
  "(('i, 'm) base_node_scheme \<Rightarrow> 'i tensor \<Rightarrow> error + 'i tensor \<times> ('i, 'm) base_node_scheme)
     \<Rightarrow> ('i, 'm) base_node_scheme \<Rightarrow> 'i tensor list
     \<Rightarrow> error + 'i tensor list \<times> ('i, 'm) base_node_scheme" where
  "BaseNode_multi_step_forward single_step self x_seq =
     (case BaseNode_multi_step_loop single_step self x_seq of
        Inl e \<Rightarrow> Inl e
      | Inr (y_seq, vs, self1) \<Rightarrow>
          if y_seq = [] then Inl (RuntimeError ''stack expects a non-empty TensorList'')
          else Inr (y_seq, if store_v_seq self1 then self1\<lparr>v_seq := Some vs\<rparr> else self1))"

section \<open>IFNode\<close>

definition IFNode_init ::
  "real \<Rightarrow> real option \<Rightarrow> ('i tensor \<Rightarrow> 'i tensor) \<Rightarrow> bool \<Rightarrow> string \<Rightarrow> string \<Rightarrow> bool
     \<Rightarrow> 'i base_node" where
  "IFNode_init th vr sg dr sm be sv = BaseNode_init th vr sg dr sm be sv"

definition IFNode_supported_backends :: "('i, 'm) base_node_scheme \<Rightarrow> error + string list" where
  "IFNode_supported_backends self =
     (if step_mode self = ''s'' then Inr [''torch'', ''cupy'']
      else if step_mode self = ''m'' then Inr [''torch'', ''cupy'']
      else Inl (ValueError (step_mode self)))"

definition IFNode_neuronal_charge ::
  "('i, 'm) base_node_scheme \<Rightarrow> 'i tensor \<Rightarrow> ('i, 'm) base_node_scheme" where
  "IFNode_neuronal_charge self x = self\<lparr>v := Tensor_mem (\<lambda>i. as_tensor (v self) i + x i)\<rparr>"

text \<open>
  The branch \<open>backend == 'cupy'\<close> runs kernels of the packages \<open>auto_cuda\<close> and
  \<open>neuron_kernel\<close>, which are not part of the sources: the branch is the parameter
  \<open>cupy_ss\<close> (single step) or \<open>cupy_ms\<close> (multi step).
\<close>

definition IFNode_single_step_forward ::
  "(('i, 'm) base_node_scheme \<Rightarrow> 'i tensor \<Rightarrow> error + 'i tensor \<times> ('i, 'm) base_node_scheme)
     \<Rightarrow> ('i, 'm) base_node_scheme \<Rightarrow> 'i tensor
     \<Rightarrow> error + 'i tensor \<times> ('i, 'm) base_node_scheme" where
  "IFNode_single_step_forward cupy_ss self x =
     (if training self then
        (if backend self = ''torch'' then
           Inr (BaseNode_single_step_forward IFNode_neuronal_charge neuronal_fire neuronal_reset
                  self x)
         else if backend self = ''cupy'' then cupy_ss self x
         else Inl (ValueError (backend self)))
      else
        (let self = v_float_to_tensor self x in
         case v_reset self of
           None \<Rightarrow>
             (let (spike, v1) = IFNode_jit_eval_single_step_forward_soft_reset x
                                  (as_tensor (v self)) (v_threshold self)
              in Inr (spike, self\<lparr>v := Tensor_mem v1\<rparr>))
         | Some r \<Rightarrow>
             (let (spike, v1) = IFNode_jit_eval_single_step_forward_hard_reset x
                                  (as_tensor (v self)) (v_threshold self) r
              in Inr (spike, self\<lparr>v := Tensor_mem v1\<rparr>))))"

definition IFNode_multi_step_forward ::
  "(('i, 'm) base_node_scheme \<Rightarrow> 'i tensor \<Rightarrow> error + 'i tensor \<times> ('i, 'm) base_node_scheme)
     \<Rightarrow> (('i, 'm) base_node_scheme \<Rightarrow> 'i tensor list
           \<Rightarrow> error + 'i tensor list \<times> ('i, 'm) base_node_scheme)
     \<Rightarrow> ('i, 'm) base_node_scheme \<Rightarrow> 'i tensor list
     \<Rightarrow> error + 'i tensor list \<times> ('i, 'm) base_node_scheme" where
  "IFNode_multi_step_forward cupy_ss cupy_ms self x_seq =
     (if training self then
        (if backend self = ''torch'' then
           BaseNode_multi_step_forward (IFNode_single_step_forward cupy_ss) self x_seq
         else if backend self = ''cupy'' then cupy_ms self x_seq
         else Inl (ValueError (backend self)))
      else
        (case x_seq of
           [] \<Rightarrow> Inl IndexError
         | x0 # rest \<Rightarrow>
             (let self = v_float_to_tensor self x0 in
              case v_reset self of
                None \<Rightarrow>
                  (if store_v_seq self then
                     (let (spike_seq, v1, vs) =
                            IFNode_jit_eval_multi_step_forward_soft_reset_with_v_seq x_seq
                              (as_tensor (v self)) (v_threshold self)
                      in Inr (spike_seq, self\<lparr>v := Tensor_mem v1, v_seq := Some vs\<rparr>))
                   else
                     (let (spike_seq, v1) =
                            IFNode_jit_eval_multi_step_forward_soft_reset x_seq
                              (as_tensor (v self)) (v_threshold self)
                      in Inr (spike_seq, self\<lparr>v := Tensor_mem v1\<rparr>)))
              | Some r \<Rightarrow>
                  (if store_v_seq self then
                     (let (spike_seq, v1, vs) =
                            IFNode_jit_eval_multi_step_forward_hard_reset_with_v_seq x_seq
                              (as_tensor (v self)) (v_threshold self) r
                      in Inr (spike_seq, self\<lparr>v := Tensor_mem v1, v_seq := Some vs\<rparr>))
                   else
                     (let (spike_seq, v1) =
                            IFNode_jit_eval_multi_step_forward_hard_reset x_seq
                              (as_tensor (v self)) (v_threshold self) r
                      in Inr (spike_seq, self\<lparr>v := Tensor_mem v1\<rparr>))))))"

section \<open>LIFNode\<close>

record 'i lif_node = "'i base_node" +
  tau :: real
  decay_input :: bool

text \<open>A constructor argument is written with a prime where an attribute has its name.\<close>

definition LIFNode_init ::
  "real \<Rightarrow> bool \<Rightarrow> real \<Rightarrow> real option \<Rightarrow> ('i tensor \<Rightarrow> 'i tensor) \<Rightarrow> bool \<Rightarrow> string \<Rightarrow> string
     \<Rightarrow> bool \<Rightarrow> error + 'i lif_node" where
  "LIFNode_init tau' decay_input' th vr sg dr sm be sv =
     (if \<not> 1 < tau' then Inl AssertionError
      else Inr (base_node.extend (BaseNode_init th vr sg dr sm be sv)
                  (lif_node.fields tau' decay_input')))"

definition LIFNode_supported_backends :: "('i, 'm) lif_node_scheme \<Rightarrow> error + string list" where
  "LIFNode_supported_backends self =
     (if step_mode self = ''s'' then Inr [''torch'', ''cupy'']
      else if step_mode self = ''m'' then Inr [''torch'', ''cupy'']
      else Inl (ValueError (step_mode self)))"

definition LIFNode_neuronal_charge ::
  "('i, 'm) lif_node_scheme \<Rightarrow> 'i tensor \<Rightarrow> ('i, 'm) lif_node_scheme" where
  "LIFNode_neuronal_charge self x =
     (if lif_node.decay_input self then
        (case v_reset self of
           None \<Rightarrow> self\<lparr>v := Tensor_mem (LIFNode_neuronal_charge_decay_input_reset0 x
                                            (as_tensor (v self)) (lif_node.tau self))\<rparr>
         | Some r \<Rightarrow>
             if r = 0 then
               self\<lparr>v := Tensor_mem (LIFNode_neuronal_charge_decay_input_reset0 x
                                       (as_tensor (v self)) (lif_node.tau self))\<rparr>
             else
               self\<lparr>v := Tensor_mem (LIFNode_neuronal_charge_decay_input x
                                       (as_tensor (v self)) r (lif_node.tau self))\<rparr>)
      else
        (case v_reset self of
           None \<Rightarrow> self\<lparr>v := Tensor_mem (LIFNode_neuronal_charge_no_decay_input_reset0 x
                                            (as_tensor (v self)) (lif_node.tau self))\<rparr>
         | Some r \<Rightarrow>
             if r = 0 then
               self\<lparr>v := Tensor_mem (LIFNode_neuronal_charge_no_decay_input_reset0 x
                                       (as_tensor (v self)) (lif_node.tau self))\<rparr>
             else
               self\<lparr>v := Tensor_mem (LIFNode_neuronal_charge_no_decay_input x
                                       (as_tensor (v self)) r (lif_node.tau self))\<rparr>))"

definition LIFNode_single_step_forward ::
  "(('i, 'm) lif_node_scheme \<Rightarrow> 'i tensor \<Rightarrow> error + 'i tensor \<times> ('i, 'm) lif_node_scheme)
     \<Rightarrow> ('i, 'm) lif_node_scheme \<Rightarrow> 'i tensor
     \<Rightarrow> error + 'i tensor \<times> ('i, 'm) lif_node_scheme" where
  "LIFNode_single_step_forward cupy_ss self x =
     (if training self then
        (if backend self = ''torch'' then
           Inr (BaseNode_single_step_forward LIFNode_neuronal_charge neuronal_fire neuronal_reset
                  self x)
         else if backend self = ''cupy'' then cupy_ss self x
         else Inl (ValueError (backend self)))
      else
        (let self = v_float_to_tensor self x in
         case v_reset self of
           None \<Rightarrow>
             (if lif_node.decay_input self then
                (let (spike, v1) =
                       LIFNode_jit_eval_single_step_forward_soft_reset_decay_input x
                         (as_tensor (v self)) (v_threshold self) (lif_node.tau self)
                 in Inr (spike, self\<lparr>v := Tensor_mem v1\<rparr>))
              else
                (let (spike, v1) =
                       LIFNode_jit_eval_single_step_forward_soft_reset_no_decay_input x
                         (as_tensor (v self)) (v_threshold self) (lif_node.tau self)
                 in Inr (spike, self\<lparr>v := Tensor_mem v1\<rparr>)))
         | Some r \<Rightarrow>
             (if lif_node.decay_input self then
                (let (spike, v1) =
                       LIFNode_jit_eval_single_step_forward_hard_reset_decay_input x
                         (as_tensor (v self)) (v_threshold self) r (lif_node.tau self)
                 in Inr (spike, self\<lparr>v := Tensor_mem v1\<rparr>))
              else
                (let (spike, v1) =
                       LIFNode_jit_eval_single_step_forward_hard_reset_no_decay_input x
                         (as_tensor (v self)) (v_threshold self) r (lif_node.tau self)
                 in Inr (spike, self\<lparr>v := Tensor_mem v1\<rparr>)))))"

definition LIFNode_multi_step_forward ::
  "(('i, 'm) lif_node_scheme \<Rightarrow> 'i tensor \<Rightarrow> error + 'i tensor \<times> ('i, 'm) lif_node_scheme)
     \<Rightarrow> (('i, 'm) lif_node_scheme \<Rightarrow> 'i tensor list
           \<Rightarrow> error + 'i tensor list \<times> ('i, 'm) lif_node_scheme)
     \<Rightarrow> ('i, 'm) lif_node_scheme \<Rightarrow> 'i tensor list
     \<Rightarrow> error + 'i tensor list \<times> ('i, 'm) lif_node_scheme" where
  "LIFNode_multi_step_forward cupy_ss cupy_ms self x_seq =
     (if training self then
        (if backend self = ''torch'' then
           BaseNode_multi_step_forward (LIFNode_single_step_forward cupy_ss) self x_seq
         else if backend self = ''cupy'' then cupy_ms self x_seq
         else Inl (ValueError (backend self)))
      else
        (case x_seq of
           [] \<Rightarrow> Inl IndexError
         | x0 # rest \<Rightarrow>
             (let self = v_float_to_tensor self x0 in
              case v_reset self of
                None \<Rightarrow>
                  (if lif_node.decay_input self then
                     (if store_v_seq self then
                        (let (spike_seq, v1, vs) =
                               LIFNode_jit_eval_multi_step_forward_soft_reset_decay_input_with_v_seq
                                 x_seq (as_tensor (v self)) (v_threshold self) (lif_node.tau self)
                         in Inr (spike_seq, self\<lparr>v := Tensor_mem v1, v_seq := Some vs\<rparr>))
                      else
                        (let (spike_seq, v1) =
                               LIFNode_jit_eval_multi_step_forward_soft_reset_decay_input
                                 x_seq (as_tensor (v self)) (v_threshold self) (lif_node.tau self)
                         in Inr (spike_seq, self\<lparr>v := Tensor_mem v1\<rparr>)))
                   else
                     (if store_v_seq self then
                        (let (spike_seq, v1, vs) =
                               LIFNode_jit_eval_multi_step_forward_soft_reset_no_decay_input_with_v_seq
                                 x_seq (as_tensor (v self)) (v_threshold self) (lif_node.tau self)
                         in Inr (spike_seq, self\<lparr>v := Tensor_mem v1, v_seq := Some vs\<rparr>))
                      else
                        (let (spike_seq, v1) =
                               LIFNode_jit_eval_multi_step_forward_soft_reset_no_decay_input
                                 x_seq (as_tensor (v self)) (v_threshold self) (lif_node.tau self)
                         in Inr (spike_seq, self\<lparr>v := Tensor_mem v1\<rparr>))))
              | Some r \<Rightarrow>
                  (if lif_node.decay_input self then
                     (if store_v_seq self then
                        (let (spike_seq, v1, vs) =
                               LIFNode_jit_eval_multi_step_forward_hard_reset_decay_input_with_v_seq
                                 x_seq (as_tensor (v self)) (v_threshold self) r (lif_node.tau self)
                         in Inr (spike_seq, self\<lparr>v := Tensor_mem v1, v_seq := Some vs\<rparr>))
                      else
                        (let (spike_seq, v1) =
                               LIFNode_jit_eval_multi_step_forward_hard_reset_decay_input
                                 x_seq (as_tensor (v self)) (v_threshold self) r (lif_node.tau self)
                         in Inr (spike_seq, self\<lparr>v := Tensor_mem v1\<rparr>)))
                   else
                     (if store_v_seq self then
                        (let (spike_seq, v1, vs) =
                               LIFNode_jit_eval_multi_step_forward_hard_reset_no_decay_input_with_v_seq
                                 x_seq (as_tensor (v self)) (v_threshold self) r (lif_node.tau self)
                         in Inr (spike_seq, self\<lparr>v := Tensor_mem v1, v_seq := Some vs\<rparr>))
                      else
                        (let (spike_seq, v1) =
                               LIFNode_jit_eval_multi_step_forward_hard_reset_no_decay_input
                                 x_seq (as_tensor (v self)) (v_threshold self) r (lif_node.tau self)
                         in Inr (spike_seq, self\<lparr>v := Tensor_mem v1\<rparr>)))))))"

section \<open>ParametricLIFNode\<close>

record 'i plif_node = "'i base_node" +
  decay_input :: bool
  w :: real

definition ParametricLIFNode_init ::
  "real \<Rightarrow> bool \<Rightarrow> real \<Rightarrow> real option \<Rightarrow> ('i tensor \<Rightarrow> 'i tensor) \<Rightarrow> bool \<Rightarrow> string \<Rightarrow> string
     \<Rightarrow> bool \<Rightarrow> error + 'i plif_node" where
  "ParametricLIFNode_init init_tau decay_input' th vr sg dr sm be sv =
     (if \<not> 1 < init_tau then Inl AssertionError
      else (let init_w = - ln (init_tau - 1)
            in Inr (base_node.extend (BaseNode_init th vr sg dr sm be sv)
                      (plif_node.fields decay_input' init_w))))"

definition ParametricLIFNode_supported_backends ::
  "('i, 'm) plif_node_scheme \<Rightarrow> error + string list" where
  "ParametricLIFNode_supported_backends self =
     (if step_mode self = ''s'' then Inr [''torch'']
      else if step_mode self = ''m'' then Inr [''torch'', ''cupy'']
      else Inl (ValueError (step_mode self)))"

definition ParametricLIFNode_neuronal_charge ::
  "('i, 'm) plif_node_scheme \<Rightarrow> 'i tensor \<Rightarrow> ('i, 'm) plif_node_scheme" where
  "ParametricLIFNode_neuronal_charge self x =
     (if plif_node.decay_input self then
        (case v_reset self of
           None \<Rightarrow> self\<lparr>v := Tensor_mem (\<lambda>i. as_tensor (v self) i
                      + (x i - as_tensor (v self) i) * sigmoid (plif_node.w self))\<rparr>
         | Some r \<Rightarrow>
             if r = 0 then
               self\<lparr>v := Tensor_mem (\<lambda>i. as_tensor (v self) i
                      + (x i - as_tensor (v self) i) * sigmoid (plif_node.w self))\<rparr>
             else
               self\<lparr>v := Tensor_mem (\<lambda>i. as_tensor (v self) i
                      + (x i - (as_tensor (v self) i - r)) * sigmoid (plif_node.w self))\<rparr>)
      else
        (case v_reset self of
           None \<Rightarrow> self\<lparr>v := Tensor_mem (\<lambda>i. as_tensor (v self) i
                      * (1 - sigmoid (plif_node.w self)) + x i)\<rparr>
         | Some r \<Rightarrow>
             if r = 0 then
               self\<lparr>v := Tensor_mem (\<lambda>i. as_tensor (v self) i
                      * (1 - sigmoid (plif_node.w self)) + x i)\<rparr>
             else
               self\<lparr>v := Tensor_mem (\<lambda>i. as_tensor (v self) i
                      - (as_tensor (v self) i - r) * sigmoid (plif_node.w self) + x i)\<rparr>))"

text \<open>\<open>single_step_forward\<close> is inherited from BaseNode.\<close>

definition ParametricLIFNode_single_step_forward ::
  "('i, 'm) plif_node_scheme \<Rightarrow> 'i tensor \<Rightarrow> error + 'i tensor \<times> ('i, 'm) plif_node_scheme" where
  "ParametricLIFNode_single_step_forward self x =
     Inr (BaseNode_single_step_forward ParametricLIFNode_neuronal_charge neuronal_fire
            neuronal_reset self x)"

definition ParametricLIFNode_multi_step_forward ::
  "(('i, 'm) plif_node_scheme \<Rightarrow> 'i tensor list
      \<Rightarrow> error + 'i tensor list \<times> ('i, 'm) plif_node_scheme)
     \<Rightarrow> ('i, 'm) plif_node_scheme \<Rightarrow> 'i tensor list
     \<Rightarrow> error + 'i tensor list \<times> ('i, 'm) plif_node_scheme" where
  "ParametricLIFNode_multi_step_forward cupy_ms self x_seq =
     (if backend self = ''torch'' then
        BaseNode_multi_step_forward ParametricLIFNode_single_step_forward self x_seq
      else if backend self = ''cupy'' then cupy_ms self x_seq
      else Inl (ValueError (backend self)))"

section \<open>KLIFNode\<close>

record 'i klif_node = "'i base_node" +
  scale_reset :: bool
  tau :: real
  decay_input :: bool
  k :: real

definition KLIFNode_init ::
  "bool \<Rightarrow> real \<Rightarrow> bool \<Rightarrow> real \<Rightarrow> real option \<Rightarrow> ('i tensor \<Rightarrow> 'i tensor) \<Rightarrow> bool \<Rightarrow> string
     \<Rightarrow> string \<Rightarrow> bool \<Rightarrow> error + 'i klif_node" where
  "KLIFNode_init scale_reset' tau' decay_input' th vr sg dr sm be sv =
     (if \<not> 1 < tau' then Inl AssertionError
      else if be = ''cupy'' then
        Inl (NotImplementedError
               ''The CuPy backend for the KLIF neuron has not been implemented!'')
      else Inr (base_node.extend (BaseNode_init th vr sg dr sm be sv)
                  (klif_node.fields scale_reset' tau' decay_input' 1)))"

definition KLIFNode_neuronal_charge ::
  "('i, 'm) klif_node_scheme \<Rightarrow> 'i tensor \<Rightarrow> ('i, 'm) klif_node_scheme" where
  "KLIFNode_neuronal_charge self x =
     (let vr = (case v_reset self of None \<Rightarrow> 0 | Some r \<Rightarrow> r) in
      if klif_node.decay_input self then
        self\<lparr>v := Tensor_mem (KLIFNode_neuronal_charge_decay_input x (as_tensor (v self)) vr
                                (klif_node.tau self) (klif_node.k self))\<rparr>
      else
        self\<lparr>v := Tensor_mem (KLIFNode_neuronal_charge_no_decay_input x (as_tensor (v self)) vr
                                (klif_node.tau self) (klif_node.k self))\<rparr>)"

definition KLIFNode_neuronal_reset ::
  "('i, 'm) klif_node_scheme \<Rightarrow> 'i tensor \<Rightarrow> ('i, 'm) klif_node_scheme" where
  "KLIFNode_neuronal_reset self spike =
     (let spike_d = (if detach_reset self then detach spike else spike) in
      if klif_node.scale_reset self then
        (case v_reset self of
           None \<Rightarrow>
             self\<lparr>v := Tensor_mem (\<lambda>i.
               jit_soft_reset (as_tensor (v self)) spike_d (v_threshold self) i
                 / klif_node.k self)\<rparr>
         | Some r \<Rightarrow>
             self\<lparr>v := Tensor_mem
               (jit_hard_reset (\<lambda>i. as_tensor (v self) i / klif_node.k self) spike_d r)\<rparr>)
      else
        (case v_reset self of
           None \<Rightarrow>
             self\<lparr>v := Tensor_mem
               (jit_soft_reset (as_tensor (v self)) spike_d (v_threshold self))\<rparr>
         | Some r \<Rightarrow>
             self\<lparr>v := Tensor_mem (jit_hard_reset (as_tensor (v self)) spike_d r)\<rparr>))"

text \<open>\<open>single_step_forward\<close> is inherited from BaseNode.\<close>

definition KLIFNode_single_step_forward ::
  "('i, 'm) klif_node_scheme \<Rightarrow> 'i tensor \<Rightarrow> 'i tensor \<times> ('i, 'm) klif_node_scheme" where
  "KLIFNode_single_step_forward self x =
     BaseNode_single_step_forward KLIFNode_neuronal_charge neuronal_fire KLIFNode_neuronal_reset
       self x"

text \<open>
  \<open>multi_step_forward\<close> is inherited from BaseNode too: the loop over the calls of
  \<open>single_step_forward\<close>.
\<close>

definition KLIFNode_multi_step_forward ::
  "('i, 'm) klif_node_scheme \<Rightarrow> 'i tensor list
     \<Rightarrow> error + 'i tensor list \<times> ('i, 'm) klif_node_scheme" where
  "KLIFNode_multi_step_forward self x_seq =
     BaseNode_multi_step_forward (\<lambda>s x. Inr (KLIFNode_single_step_forward s x)) self x_seq"

section \<open>QIFNode, EIFNode and IzhikevichNode: the constructors\<close>

record 'i qif_node = "'i base_node" +
  tau :: real
  v_c :: real
  v_rest :: real
  a0 :: real

definition QIFNode_init ::
  "real \<Rightarrow> real \<Rightarrow> real \<Rightarrow> real \<Rightarrow> real \<Rightarrow> real option \<Rightarrow> ('i tensor \<Rightarrow> 'i tensor) \<Rightarrow> bool
     \<Rightarrow> string \<Rightarrow> string \<Rightarrow> bool \<Rightarrow> error + 'i qif_node" where
  "QIFNode_init tau' v_c' a0' th v_rest' vr sg dr sm be sv =
     (if \<not> 1 < tau' then Inl AssertionError
      else if (case vr of None \<Rightarrow> False | Some r \<Rightarrow> \<not> r < th) then Inl AssertionError
      else if (case vr of None \<Rightarrow> False | Some r \<Rightarrow> \<not> r \<le> v_rest') then Inl AssertionError
      else if \<not> 0 < a0' then Inl AssertionError
      else Inr (base_node.extend (BaseNode_init th vr sg dr sm be sv)
                  (qif_node.fields tau' v_c' v_rest' a0')))"

record 'i eif_node = "'i base_node" +
  tau :: real
  delta_T :: real
  v_rest :: real
  theta_rh :: real

definition EIFNode_init ::
  "real \<Rightarrow> real \<Rightarrow> real \<Rightarrow> real \<Rightarrow> real \<Rightarrow> real option \<Rightarrow> ('i tensor \<Rightarrow> 'i tensor) \<Rightarrow> bool
     \<Rightarrow> string \<Rightarrow> string \<Rightarrow> bool \<Rightarrow> error + 'i eif_node" where
  "EIFNode_init tau' delta_T' theta_rh' th v_rest' vr sg dr sm be sv =
     (if \<not> 1 < tau' then Inl AssertionError
      else if (case vr of None \<Rightarrow> False | Some r \<Rightarrow> \<not> r < th) then Inl AssertionError
      else if (case vr of None \<Rightarrow> False | Some r \<Rightarrow> \<not> r \<le> v_rest') then Inl AssertionError
      else if \<not> 0 < delta_T' then Inl AssertionError
      else Inr (base_node.extend (BaseNode_init th vr sg dr sm be sv)
                  (eif_node.fields tau' delta_T' v_rest' theta_rh')))"

record 'i adapt_base_node = "'i base_node" +
  w :: "'i memory"
  w_rest :: real
  v_rest :: real
  tau_w :: real
  a :: real
  b :: real

definition AdaptBaseNode_init ::
  "real \<Rightarrow> real option \<Rightarrow> real \<Rightarrow> real \<Rightarrow> real \<Rightarrow> real \<Rightarrow> real \<Rightarrow> ('i tensor \<Rightarrow> 'i tensor) \<Rightarrow> bool
     \<Rightarrow> string \<Rightarrow> string \<Rightarrow> bool \<Rightarrow> 'i adapt_base_node" where
  "AdaptBaseNode_init th vr v_rest' w_rest' tau_w' a' b' sg dr sm be sv =
     base_node.extend (BaseNode_init th vr sg dr sm be sv)
       (adapt_base_node.fields (Float_mem w_rest') w_rest' v_rest' tau_w' a' b')"

record 'i izhikevich_node = "'i adapt_base_node" +
  tau :: real
  v_c :: real
  a0 :: real

definition IzhikevichNode_init ::
  "real \<Rightarrow> real \<Rightarrow> real \<Rightarrow> real \<Rightarrow> real option \<Rightarrow> real \<Rightarrow> real \<Rightarrow> real \<Rightarrow> real \<Rightarrow> real
     \<Rightarrow> ('i tensor \<Rightarrow> 'i tensor) \<Rightarrow> bool \<Rightarrow> string \<Rightarrow> string \<Rightarrow> bool
     \<Rightarrow> error + 'i izhikevich_node" where
  "IzhikevichNode_init tau' v_c' a0' th vr v_rest' w_rest' tau_w' a' b' sg dr sm be sv =
     (if \<not> 1 < tau' then Inl AssertionError
      else if \<not> 0 < a0' then Inl AssertionError
      else Inr (adapt_base_node.extend
                  (AdaptBaseNode_init th vr v_rest' w_rest' tau_w' a' b' sg dr sm be sv)
                  (izhikevich_node.fields tau' v_c' a0')))"

section \<open>Sequential single steps\<close>

text \<open>
  \<open>T\<close> sequential calls of a \<open>single_step_forward\<close> on the slices of \<open>x_seq\<close>, from the same
  object: the outputs in order, and the object after the last call.
\<close>

fun sequential_single_steps ::
  "('s \<Rightarrow> 'i tensor \<Rightarrow> error + 'i tensor \<times> 's) \<Rightarrow> 's \<Rightarrow> 'i tensor list
     \<Rightarrow> error + 'i tensor list \<times> 's" where
  "sequential_single_steps single_step self [] = Inr ([], self)"
| "sequential_single_steps single_step self (x # x_seq) =
     (case single_step self x of
        Inl e \<Rightarrow> Inl e
      | Inr (y, self1) \<Rightarrow>
          (case sequential_single_steps single_step self1 x_seq of
             Inl e \<Rightarrow> Inl e
           | Inr (y_seq, self2) \<Rightarrow> Inr (y # y_seq, self2)))"

text \<open>The cupy branch on a machine where the import of cupy failed.\<close>

definition cupy_missing :: "'s \<Rightarrow> 'x \<Rightarrow> error + 'y" where
  "cupy_missing self x = Inl (NotImplementedError ''cupy'')"

section \<open>The evaluation branches as kernels\<close>

text \<open>
  The kernel that the evaluation branch of \<open>single_step_forward\<close> or \<open>multi_step_forward\<close>
  selects, as a function of the attributes it reads.
\<close>

definition IFNode_eval_step ::
  "real \<Rightarrow> real option \<Rightarrow> 'i tensor \<Rightarrow> 'i tensor \<Rightarrow> 'i tensor \<times> 'i tensor" where
  "IFNode_eval_step th vr x t =
     (case vr of
        None \<Rightarrow> IFNode_jit_eval_single_step_forward_soft_reset x t th
      | Some r \<Rightarrow> IFNode_jit_eval_single_step_forward_hard_reset x t th r)"

definition IFNode_eval_loop ::
  "real \<Rightarrow> real option \<Rightarrow> 'i tensor list \<Rightarrow> 'i tensor \<Rightarrow> 'i tensor list \<times> 'i tensor" where
  "IFNode_eval_loop th vr xs t =
     (case vr of
        None \<Rightarrow> IFNode_jit_eval_multi_step_forward_soft_reset xs t th
      | Some r \<Rightarrow> IFNode_jit_eval_multi_step_forward_hard_reset xs t th r)"

definition LIFNode_eval_step ::
  "real \<Rightarrow> real option \<Rightarrow> real \<Rightarrow> bool \<Rightarrow> 'i tensor \<Rightarrow> 'i tensor \<Rightarrow> 'i tensor \<times> 'i tensor" where
  "LIFNode_eval_step th vr ta d x t =
     (case vr of
        None \<Rightarrow>
          (if d then LIFNode_jit_eval_single_step_forward_soft_reset_decay_input x t th ta
           else LIFNode_jit_eval_single_step_forward_soft_reset_no_decay_input x t th ta)
      | Some r \<Rightarrow>
          (if d then LIFNode_jit_eval_single_step_forward_hard_reset_decay_input x t th r ta
           else LIFNode_jit_eval_single_step_forward_hard_reset_no_decay_input x t th r ta))"

definition LIFNode_eval_loop ::
  "real \<Rightarrow> real option \<Rightarrow> real \<Rightarrow> bool \<Rightarrow> 'i tensor list \<Rightarrow> 'i tensor
     \<Rightarrow> 'i tensor list \<times> 'i tensor" where
  "LIFNode_eval_loop th vr ta d xs t =
     (case vr of
        None \<Rightarrow>
          (if d then LIFNode_jit_eval_multi_step_forward_soft_reset_decay_input xs t th ta
           else LIFNode_jit_eval_multi_step_forward_soft_reset_no_decay_input xs t th ta)
      | Some r \<Rightarrow>
          (if d then LIFNode_jit_eval_multi_step_forward_hard_reset_decay_input xs t th r ta
           else LIFNode_jit_eval_multi_step_forward_hard_reset_no_decay_input xs t th r ta))"

section \<open>Example objects\<close>

text \<open>
  The integrate-and-fire neuron with \<open>v_threshold = 1.0\<close> and hard reset to \<open>v_reset = 0.0\<close>,
  as constructed, and the input sequence \<open>[0.6, 0.6, 0.6, 0.6]\<close>.
\<close>

definition scenario_if_node :: "'i base_node" where
  "scenario_if_node = IFNode_init 1 (Some 0) heaviside False ''s'' ''torch'' False"

definition scenario_x_seq :: "'i tensor list" where
  "scenario_x_seq = [\<lambda>i. 6 / 10, \<lambda>i. 6 / 10, \<lambda>i. 6 / 10, \<lambda>i. 6 / 10]"

text \<open>
  A leaky neuron with hard reset, and a KLIF neuron with \<open>scale_reset\<close> whose learnable
  parameter \<open>k\<close> has reached 0.5.
\<close>

definition example_lif_node :: "'i lif_node" where
  "example_lif_node =
     projr (LIFNode_init 2 True 1 (Some 0) heaviside False ''s'' ''torch'' False)"

definition example_klif_node :: "'i klif_node" where
  "example_klif_node =
     (projr (KLIFNode_init True 2 True 1 (Some 0) heaviside False ''s'' ''torch'' False))
       \<lparr>klif_node.k := 1 / 2\<rparr>"

text \<open>
  A ParametricLIFNode built for the multi-step mode with the cupy backend, which its
  \<open>supported_backends\<close> declares for that mode.
\<close>

definition example_plif_node :: "'i plif_node" where
  "example_plif_node =
     projr (ParametricLIFNode_init 2 True 1 (Some 0) heaviside False ''m'' ''cupy'' False)"


text \<open>
  A GatedLIFNode for one time step (\<open>T = 1\<close>), layer-wise, with every raw parameter at 0:
  the gates, the decay, the threshold, the linear decay, the sub-reset and the
  conductance are all \<open>sigmoid 0 = 0.5\<close> (the constructor gives these values for
  \<open>init_tau = init_v_threshold = init_linear_decay = init_v_subreset = init_conduct = 0.5\<close>
  and gates drawn at 0).
\<close>

definition example_gated_node :: "'i gated_lif_node" where
  "example_gated_node =
     \<lparr>gated_lif_node.T = 1, gated_lif_node.alpha = (\<lambda>i. 0), gated_lif_node.beta = (\<lambda>i. 0),
      gated_lif_node.gamma = (\<lambda>i. 0), gated_lif_node.tau = (\<lambda>i. 0),
      gated_lif_node.v_threshold = (\<lambda>i. 0), gated_lif_node.linear_decay = (\<lambda>i. 0),
      gated_lif_node.v_subreset = (\<lambda>i. 0), gated_lif_node.conduct = [\<lambda>i. 0],
      gated_lif_node.surrogate_function = heaviside,
      gated_lif_node.v = Float_mem 0, gated_lif_node.u = Float_mem 0\<rparr>"

text \<open>
  An OTTTLIFNode with the default parameters of its constructor (soft reset, no decay of
  the input, \<open>tau = 2\<close>), the surrogate computing the step function in the forward pass.
\<close>

definition example_ottt_node :: "'i otttlif_node" where
  "example_ottt_node =
     projr (OTTTLIFNode_init 2 False 1 None heaviside True ''s'' ''torch'' False)"

section \<open>Basic facts\<close>

lemma as_tensor_simps [simp]:
  "as_tensor (Tensor_mem t) = t"
  "as_tensor (Float_mem c) = (\<lambda>i. c)"
  by (simp_all add: as_tensor_def)

lemma as_tensor_v_float_to_tensor [simp]:
  "as_tensor (v (v_float_to_tensor self x)) = as_tensor (v self)"
  by (cases "v self") (simp_all add: v_float_to_tensor_def as_tensor_def full_like_def)

lemma v_float_to_tensor_v_update [simp]:
  "(v_float_to_tensor self x)\<lparr>v := m\<rparr> = self\<lparr>v := m\<rparr>"
  by (cases "v self") (simp_all add: v_float_to_tensor_def)

lemma v_float_to_tensor_fields [simp]:
  "v_reset (v_float_to_tensor self x) = v_reset self"
  "v_threshold (v_float_to_tensor self x) = v_threshold self"
  "training (v_float_to_tensor self x) = training self"
  "backend (v_float_to_tensor self x) = backend self"
  "store_v_seq (v_float_to_tensor self x) = store_v_seq self"
  "surrogate_function (v_float_to_tensor self x) = surrogate_function self"
  "detach_reset (v_float_to_tensor self x) = detach_reset self"
  by (cases "v self"; simp add: v_float_to_tensor_def)+

lemma v_float_to_tensor_klif_fields [simp]:
  "klif_node.tau (v_float_to_tensor self x) = klif_node.tau self"
  "klif_node.decay_input (v_float_to_tensor self x) = klif_node.decay_input self"
  "klif_node.scale_reset (v_float_to_tensor self x) = klif_node.scale_reset self"
  "klif_node.k (v_float_to_tensor self x) = klif_node.k self"
  by (cases "v self"; simp add: v_float_to_tensor_def)+

lemma v_float_to_tensor_lif_fields [simp]:
  "lif_node.tau (v_float_to_tensor self x) = lif_node.tau self"
  "lif_node.decay_input (v_float_to_tensor self x) = lif_node.decay_input self"
  by (cases "v self"; simp add: v_float_to_tensor_def)+

lemma example_lif_node_fields:
  "v_reset (example_lif_node :: 'i lif_node) = Some 0"
  "v_threshold (example_lif_node :: 'i lif_node) = 1"
  "training (example_lif_node :: 'i lif_node)"
  "backend (example_lif_node :: 'i lif_node) = ''torch''"
  "surrogate_function (example_lif_node :: 'i lif_node) = heaviside"
  by (simp_all add: example_lif_node_def LIFNode_init_def BaseNode_init_def
        base_node.defs lif_node.defs)

lemma scenario_if_node_fields:
  "v_reset (scenario_if_node :: 'i base_node) = Some 0"
  "v_threshold (scenario_if_node :: 'i base_node) = 1"
  "training (scenario_if_node :: 'i base_node)"
  "backend (scenario_if_node :: 'i base_node) = ''torch''"
  "surrogate_function (scenario_if_node :: 'i base_node) = heaviside"
  by (simp_all add: scenario_if_node_def IFNode_init_def BaseNode_init_def)



section \<open>Sequences of steps\<close>

text \<open>A step that maps the potential through a kernel \<open>J\<close>, iterated, is the loop \<open>M\<close> of
  that kernel.\<close>

lemma sequential_kernel_steps:
  fixes step :: "('i, 'm) base_node_scheme \<Rightarrow> 'i tensor
                  \<Rightarrow> error + 'i tensor \<times> ('i, 'm) base_node_scheme"
  assumes stepJ: "\<And>s x. P s \<Longrightarrow>
            step s x = Inr (fst (J x (as_tensor (v s))),
                            s\<lparr>v := Tensor_mem (snd (J x (as_tensor (v s))))\<rparr>)"
    and P_upd: "\<And>s m. P s \<Longrightarrow> P (s\<lparr>v := m\<rparr>)"
    and M_nil: "\<And>t. M [] t = ([], t)"
    and M_cons: "\<And>x xs t. M (x # xs) t =
            (fst (J x t) # fst (M xs (snd (J x t))), snd (M xs (snd (J x t))))"
    and P0: "P self"
  shows "sequential_single_steps step self xs =
           Inr (fst (M xs (as_tensor (v self))),
                if xs = [] then self
                else self\<lparr>v := Tensor_mem (snd (M xs (as_tensor (v self))))\<rparr>)"
  using P0
proof (induction xs arbitrary: self)
  case Nil
  then show ?case by (simp add: M_nil)
next
  case (Cons x xs)
  define s1 where "s1 = self\<lparr>v := Tensor_mem (snd (J x (as_tensor (v self))))\<rparr>"
  have P1: "P s1" unfolding s1_def by (rule P_upd[OF Cons.prems])
  have step1: "step self x = Inr (fst (J x (as_tensor (v self))), s1)"
    unfolding s1_def by (rule stepJ[OF Cons.prems])
  have s1v: "as_tensor (v s1) = snd (J x (as_tensor (v self)))"
    by (simp add: s1_def as_tensor_def)
  have upd: "s1\<lparr>v := m\<rparr> = self\<lparr>v := m\<rparr>" for m by (simp add: s1_def)
  show ?case
    by (simp add: step1 Cons.IH[OF P1] M_cons s1v upd) (simp add: s1_def M_nil)
qed

text \<open>The loop of \<open>BaseNode.multi_step_forward\<close> makes the sequential calls.\<close>

lemma multi_step_loop_sequential:
  "sequential_single_steps step self xs =
     (case BaseNode_multi_step_loop step self xs of
        Inl e \<Rightarrow> Inl e
      | Inr (ys, vs, s1) \<Rightarrow> Inr (ys, s1))"
proof (induction xs arbitrary: self)
  case Nil
  then show ?case by simp
next
  case (Cons x xs)
  show ?case
    by (simp add: Cons.IH split: sum.splits prod.splits)
qed

text \<open>Steps that never raise and keep \<open>P\<close>, establishing \<open>Q\<close>: so does their sequence.\<close>

lemma sequential_single_steps_invariant:
  assumes step: "\<And>s x. P s \<Longrightarrow> \<exists>y s1. step s x = Inr (y, s1) \<and> P s1 \<and> Q s1"
    and P0: "P self"
  shows "\<exists>ys s1. sequential_single_steps step self xs = Inr (ys, s1) \<and> P s1
           \<and> length ys = length xs \<and> (xs \<noteq> [] \<longrightarrow> Q s1)"
  using P0
proof (induction xs arbitrary: self)
  case Nil
  then show ?case by simp
next
  case (Cons x xs)
  from step[OF Cons.prems] obtain y s1 where s1: "step self x = Inr (y, s1)" "P s1" "Q s1"
    by blast
  from Cons.IH[OF s1(2)] obtain ys s2 where
    s2: "sequential_single_steps step s1 xs = Inr (ys, s2)" "P s2" "length ys = length xs"
        "xs \<noteq> [] \<longrightarrow> Q s2"
    by blast
  show ?case
  proof (cases "xs = []")
    case True
    with s2 s1 show ?thesis by simp
  next
    case False
    with s2 s1 show ?thesis by simp
  qed
qed

section \<open>The loops of the evaluation kernels\<close>

lemma IFNode_jit_eval_multi_step_forward_hard_reset_Cons:
  "IFNode_jit_eval_multi_step_forward_hard_reset (x # xs) t th r =
     (fst (IFNode_jit_eval_single_step_forward_hard_reset x t th r)
        # fst (IFNode_jit_eval_multi_step_forward_hard_reset xs (snd (IFNode_jit_eval_single_step_forward_hard_reset x t th r)) th r),
      snd (IFNode_jit_eval_multi_step_forward_hard_reset xs (snd (IFNode_jit_eval_single_step_forward_hard_reset x t th r)) th r))"
  by (simp add: IFNode_jit_eval_single_step_forward_hard_reset_def Let_def split_beta)

lemma IFNode_jit_eval_multi_step_forward_hard_reset_with_v_seq_eq:
  "fst (IFNode_jit_eval_multi_step_forward_hard_reset_with_v_seq xs t th r) = fst (IFNode_jit_eval_multi_step_forward_hard_reset xs t th r)
   \<and> fst (snd (IFNode_jit_eval_multi_step_forward_hard_reset_with_v_seq xs t th r)) = snd (IFNode_jit_eval_multi_step_forward_hard_reset xs t th r)"
  by (induction xs arbitrary: t) (simp_all add: Let_def split_beta)

lemma IFNode_jit_eval_multi_step_forward_hard_reset_length:
  "length (fst (IFNode_jit_eval_multi_step_forward_hard_reset xs t th r)) = length xs"
  by (induction xs arbitrary: t) (simp_all add: Let_def split_beta)

lemma IFNode_jit_eval_multi_step_forward_soft_reset_Cons:
  "IFNode_jit_eval_multi_step_forward_soft_reset (x # xs) t th =
     (fst (IFNode_jit_eval_single_step_forward_soft_reset x t th)
        # fst (IFNode_jit_eval_multi_step_forward_soft_reset xs (snd (IFNode_jit_eval_single_step_forward_soft_reset x t th)) th),
      snd (IFNode_jit_eval_multi_step_forward_soft_reset xs (snd (IFNode_jit_eval_single_step_forward_soft_reset x t th)) th))"
  by (simp add: IFNode_jit_eval_single_step_forward_soft_reset_def Let_def split_beta)

lemma IFNode_jit_eval_multi_step_forward_soft_reset_with_v_seq_eq:
  "fst (IFNode_jit_eval_multi_step_forward_soft_reset_with_v_seq xs t th) = fst (IFNode_jit_eval_multi_step_forward_soft_reset xs t th)
   \<and> fst (snd (IFNode_jit_eval_multi_step_forward_soft_reset_with_v_seq xs t th)) = snd (IFNode_jit_eval_multi_step_forward_soft_reset xs t th)"
  by (induction xs arbitrary: t) (simp_all add: Let_def split_beta)

lemma IFNode_jit_eval_multi_step_forward_soft_reset_length:
  "length (fst (IFNode_jit_eval_multi_step_forward_soft_reset xs t th)) = length xs"
  by (induction xs arbitrary: t) (simp_all add: Let_def split_beta)

lemma LIFNode_jit_eval_multi_step_forward_hard_reset_decay_input_Cons:
  "LIFNode_jit_eval_multi_step_forward_hard_reset_decay_input (x # xs) t th r ta =
     (fst (LIFNode_jit_eval_single_step_forward_hard_reset_decay_input x t th r ta)
        # fst (LIFNode_jit_eval_multi_step_forward_hard_reset_decay_input xs (snd (LIFNode_jit_eval_single_step_forward_hard_reset_decay_input x t th r ta)) th r ta),
      snd (LIFNode_jit_eval_multi_step_forward_hard_reset_decay_input xs (snd (LIFNode_jit_eval_single_step_forward_hard_reset_decay_input x t th r ta)) th r ta))"
  by (simp add: LIFNode_jit_eval_single_step_forward_hard_reset_decay_input_def Let_def split_beta)

lemma LIFNode_jit_eval_multi_step_forward_hard_reset_decay_input_with_v_seq_eq:
  "fst (LIFNode_jit_eval_multi_step_forward_hard_reset_decay_input_with_v_seq xs t th r ta) = fst (LIFNode_jit_eval_multi_step_forward_hard_reset_decay_input xs t th r ta)
   \<and> fst (snd (LIFNode_jit_eval_multi_step_forward_hard_reset_decay_input_with_v_seq xs t th r ta)) = snd (LIFNode_jit_eval_multi_step_forward_hard_reset_decay_input xs t th r ta)"
  by (induction xs arbitrary: t) (simp_all add: Let_def split_beta)

lemma LIFNode_jit_eval_multi_step_forward_hard_reset_decay_input_length:
  "length (fst (LIFNode_jit_eval_multi_step_forward_hard_reset_decay_input xs t th r ta)) = length xs"
  by (induction xs arbitrary: t) (simp_all add: Let_def split_beta)

lemma LIFNode_jit_eval_multi_step_forward_hard_reset_no_decay_input_Cons:
  "LIFNode_jit_eval_multi_step_forward_hard_reset_no_decay_input (x # xs) t th r ta =
     (fst (LIFNode_jit_eval_single_step_forward_hard_reset_no_decay_input x t th r ta)
        # fst (LIFNode_jit_eval_multi_step_forward_hard_reset_no_decay_input xs (snd (LIFNode_jit_eval_single_step_forward_hard_reset_no_decay_input x t th r ta)) th r ta),
      snd (LIFNode_jit_eval_multi_step_forward_hard_reset_no_decay_input xs (snd (LIFNode_jit_eval_single_step_forward_hard_reset_no_decay_input x t th r ta)) th r ta))"
  by (simp add: LIFNode_jit_eval_single_step_forward_hard_reset_no_decay_input_def Let_def split_beta)

lemma LIFNode_jit_eval_multi_step_forward_hard_reset_no_decay_input_with_v_seq_eq:
  "fst (LIFNode_jit_eval_multi_step_forward_hard_reset_no_decay_input_with_v_seq xs t th r ta) = fst (LIFNode_jit_eval_multi_step_forward_hard_reset_no_decay_input xs t th r ta)
   \<and> fst (snd (LIFNode_jit_eval_multi_step_forward_hard_reset_no_decay_input_with_v_seq xs t th r ta)) = snd (LIFNode_jit_eval_multi_step_forward_hard_reset_no_decay_input xs t th r ta)"
  by (induction xs arbitrary: t) (simp_all add: Let_def split_beta)

lemma LIFNode_jit_eval_multi_step_forward_hard_reset_no_decay_input_length:
  "length (fst (LIFNode_jit_eval_multi_step_forward_hard_reset_no_decay_input xs t th r ta)) = length xs"
  by (induction xs arbitrary: t) (simp_all add: Let_def split_beta)

lemma LIFNode_jit_eval_multi_step_forward_soft_reset_decay_input_Cons:
  "LIFNode_jit_eval_multi_step_forward_soft_reset_decay_input (x # xs) t th ta =
     (fst (LIFNode_jit_eval_single_step_forward_soft_reset_decay_input x t th ta)
        # fst (LIFNode_jit_eval_multi_step_forward_soft_reset_decay_input xs (snd (LIFNode_jit_eval_single_step_forward_soft_reset_decay_input x t th ta)) th ta),
      snd (LIFNode_jit_eval_multi_step_forward_soft_reset_decay_input xs (snd (LIFNode_jit_eval_single_step_forward_soft_reset_decay_input x t th ta)) th ta))"
  by (simp add: LIFNode_jit_eval_single_step_forward_soft_reset_decay_input_def Let_def split_beta)

lemma LIFNode_jit_eval_multi_step_forward_soft_reset_decay_input_with_v_seq_eq:
  "fst (LIFNode_jit_eval_multi_step_forward_soft_reset_decay_input_with_v_seq xs t th ta) = fst (LIFNode_jit_eval_multi_step_forward_soft_reset_decay_input xs t th ta)
   \<and> fst (snd (LIFNode_jit_eval_multi_step_forward_soft_reset_decay_input_with_v_seq xs t th ta)) = snd (LIFNode_jit_eval_multi_step_forward_soft_reset_decay_input xs t th ta)"
  by (induction xs arbitrary: t) (simp_all add: Let_def split_beta)

lemma LIFNode_jit_eval_multi_step_forward_soft_reset_decay_input_length:
  "length (fst (LIFNode_jit_eval_multi_step_forward_soft_reset_decay_input xs t th ta)) = length xs"
  by (induction xs arbitrary: t) (simp_all add: Let_def split_beta)

lemma LIFNode_jit_eval_multi_step_forward_soft_reset_no_decay_input_Cons:
  "LIFNode_jit_eval_multi_step_forward_soft_reset_no_decay_input (x # xs) t th ta =
     (fst (LIFNode_jit_eval_single_step_forward_soft_reset_no_decay_input x t th ta)
        # fst (LIFNode_jit_eval_multi_step_forward_soft_reset_no_decay_input xs (snd (LIFNode_jit_eval_single_step_forward_soft_reset_no_decay_input x t th ta)) th ta),
      snd (LIFNode_jit_eval_multi_step_forward_soft_reset_no_decay_input xs (snd (LIFNode_jit_eval_single_step_forward_soft_reset_no_decay_input x t th ta)) th ta))"
  by (simp add: LIFNode_jit_eval_single_step_forward_soft_reset_no_decay_input_def Let_def split_beta)

lemma LIFNode_jit_eval_multi_step_forward_soft_reset_no_decay_input_with_v_seq_eq:
  "fst (LIFNode_jit_eval_multi_step_forward_soft_reset_no_decay_input_with_v_seq xs t th ta) = fst (LIFNode_jit_eval_multi_step_forward_soft_reset_no_decay_input xs t th ta)
   \<and> fst (snd (LIFNode_jit_eval_multi_step_forward_soft_reset_no_decay_input_with_v_seq xs t th ta)) = snd (LIFNode_jit_eval_multi_step_forward_soft_reset_no_decay_input xs t th ta)"
  by (induction xs arbitrary: t) (simp_all add: Let_def split_beta)

lemma LIFNode_jit_eval_multi_step_forward_soft_reset_no_decay_input_length:
  "length (fst (LIFNode_jit_eval_multi_step_forward_soft_reset_no_decay_input xs t th ta)) = length xs"
  by (induction xs arbitrary: t) (simp_all add: Let_def split_beta)

lemma IFNode_eval_loop_Nil: "IFNode_eval_loop th vr [] t = ([], t)"
  by (cases vr) (simp_all add: IFNode_eval_loop_def)

lemma IFNode_eval_loop_Cons:
  "IFNode_eval_loop th vr (x # xs) t =
     (fst (IFNode_eval_step th vr x t)
        # fst (IFNode_eval_loop th vr xs (snd (IFNode_eval_step th vr x t))),
      snd (IFNode_eval_loop th vr xs (snd (IFNode_eval_step th vr x t))))"
  by (cases vr)
     (simp_all only: IFNode_eval_loop_def IFNode_eval_step_def option.case
        IFNode_jit_eval_multi_step_forward_hard_reset_Cons
        IFNode_jit_eval_multi_step_forward_soft_reset_Cons)

lemma IFNode_eval_loop_length: "length (fst (IFNode_eval_loop th vr xs t)) = length xs"
  by (cases vr)
     (simp_all add: IFNode_eval_loop_def IFNode_jit_eval_multi_step_forward_hard_reset_length
        IFNode_jit_eval_multi_step_forward_soft_reset_length)

lemma LIFNode_eval_loop_Nil: "LIFNode_eval_loop th vr ta d [] t = ([], t)"
  by (cases vr) (simp_all add: LIFNode_eval_loop_def)

lemma LIFNode_eval_loop_Cons:
  "LIFNode_eval_loop th vr ta d (x # xs) t =
     (fst (LIFNode_eval_step th vr ta d x t)
        # fst (LIFNode_eval_loop th vr ta d xs (snd (LIFNode_eval_step th vr ta d x t))),
      snd (LIFNode_eval_loop th vr ta d xs (snd (LIFNode_eval_step th vr ta d x t))))"
  by (cases vr; cases d)
     (simp_all only: LIFNode_eval_loop_def LIFNode_eval_step_def option.case if_True if_False
        LIFNode_jit_eval_multi_step_forward_hard_reset_decay_input_Cons
        LIFNode_jit_eval_multi_step_forward_hard_reset_no_decay_input_Cons
        LIFNode_jit_eval_multi_step_forward_soft_reset_decay_input_Cons
        LIFNode_jit_eval_multi_step_forward_soft_reset_no_decay_input_Cons)

lemma LIFNode_eval_loop_length:
  "length (fst (LIFNode_eval_loop th vr ta d xs t)) = length xs"
  by (cases vr; cases d)
     (simp_all add: LIFNode_eval_loop_def
        LIFNode_jit_eval_multi_step_forward_hard_reset_decay_input_length
        LIFNode_jit_eval_multi_step_forward_hard_reset_no_decay_input_length
        LIFNode_jit_eval_multi_step_forward_soft_reset_decay_input_length
        LIFNode_jit_eval_multi_step_forward_soft_reset_no_decay_input_length)

text \<open>The evaluation branches of the forward methods, through the kernels.\<close>

lemma IFNode_eval_single_step:
  "\<not> training self \<Longrightarrow>
   IFNode_single_step_forward cupy_ss self x =
     Inr (fst (IFNode_eval_step (v_threshold self) (v_reset self) x (as_tensor (v self))),
          self\<lparr>v := Tensor_mem
                 (snd (IFNode_eval_step (v_threshold self) (v_reset self) x
                         (as_tensor (v self))))\<rparr>)"
  by (cases "v_reset self")
     (simp_all add: IFNode_single_step_forward_def IFNode_eval_step_def Let_def split_beta)

lemma IFNode_eval_multi_step:
  "\<not> training self \<Longrightarrow> xs \<noteq> [] \<Longrightarrow>
   \<exists>vs. IFNode_multi_step_forward cupy_ss cupy_ms self xs =
     Inr (fst (IFNode_eval_loop (v_threshold self) (v_reset self) xs (as_tensor (v self))),
          (self\<lparr>v := Tensor_mem
                  (snd (IFNode_eval_loop (v_threshold self) (v_reset self) xs
                          (as_tensor (v self))))\<rparr>)
            \<lparr>v_seq := if store_v_seq self then Some vs else v_seq self\<rparr>)"
  apply (cases "v_reset self"; cases xs; cases "store_v_seq self")
  apply (simp_all add: IFNode_multi_step_forward_def IFNode_eval_loop_def Let_def split_beta
        IFNode_jit_eval_multi_step_forward_hard_reset_with_v_seq_eq
        IFNode_jit_eval_multi_step_forward_soft_reset_with_v_seq_eq
        del: IFNode_jit_eval_multi_step_forward_hard_reset.simps
             IFNode_jit_eval_multi_step_forward_soft_reset.simps
             IFNode_jit_eval_multi_step_forward_hard_reset_with_v_seq.simps
             IFNode_jit_eval_multi_step_forward_soft_reset_with_v_seq.simps)
  apply ((rule exI, rule refl)+)
  done

lemma LIFNode_eval_single_step:
  "\<not> training self \<Longrightarrow>
   LIFNode_single_step_forward cupy_ss self x =
     Inr (fst (LIFNode_eval_step (v_threshold self) (v_reset self) (lif_node.tau self)
                 (lif_node.decay_input self) x (as_tensor (v self))),
          self\<lparr>v := Tensor_mem
                 (snd (LIFNode_eval_step (v_threshold self) (v_reset self) (lif_node.tau self)
                         (lif_node.decay_input self) x (as_tensor (v self))))\<rparr>)"
  by (cases "v_reset self"; cases "lif_node.decay_input self")
     (simp_all add: LIFNode_single_step_forward_def LIFNode_eval_step_def Let_def split_beta)

lemma LIFNode_eval_multi_step:
  "\<not> training self \<Longrightarrow> xs \<noteq> [] \<Longrightarrow>
   \<exists>vs. LIFNode_multi_step_forward cupy_ss cupy_ms self xs =
     Inr (fst (LIFNode_eval_loop (v_threshold self) (v_reset self) (lif_node.tau self)
                 (lif_node.decay_input self) xs (as_tensor (v self))),
          (self\<lparr>v := Tensor_mem
                  (snd (LIFNode_eval_loop (v_threshold self) (v_reset self) (lif_node.tau self)
                          (lif_node.decay_input self) xs (as_tensor (v self))))\<rparr>)
            \<lparr>v_seq := if store_v_seq self then Some vs else v_seq self\<rparr>)"
  apply (cases "v_reset self"; cases xs; cases "store_v_seq self"; cases "lif_node.decay_input self")
  apply (simp_all add: LIFNode_multi_step_forward_def LIFNode_eval_loop_def Let_def split_beta
        LIFNode_jit_eval_multi_step_forward_hard_reset_decay_input_with_v_seq_eq
        LIFNode_jit_eval_multi_step_forward_hard_reset_no_decay_input_with_v_seq_eq
        LIFNode_jit_eval_multi_step_forward_soft_reset_decay_input_with_v_seq_eq
        LIFNode_jit_eval_multi_step_forward_soft_reset_no_decay_input_with_v_seq_eq
        del: LIFNode_jit_eval_multi_step_forward_hard_reset_decay_input.simps
             LIFNode_jit_eval_multi_step_forward_hard_reset_no_decay_input.simps
             LIFNode_jit_eval_multi_step_forward_soft_reset_decay_input.simps
             LIFNode_jit_eval_multi_step_forward_soft_reset_no_decay_input.simps
             LIFNode_jit_eval_multi_step_forward_hard_reset_decay_input_with_v_seq.simps
             LIFNode_jit_eval_multi_step_forward_hard_reset_no_decay_input_with_v_seq.simps
             LIFNode_jit_eval_multi_step_forward_soft_reset_decay_input_with_v_seq.simps
             LIFNode_jit_eval_multi_step_forward_soft_reset_no_decay_input_with_v_seq.simps)
  apply ((rule exI, rule refl)+)
  done

section \<open>One multi-step call and the sequential single-step calls\<close>

lemma BaseNode_multi_step_forward_sequential:
  assumes seq: "sequential_single_steps step self xs = Inr (ys, s1)" and ne: "ys \<noteq> []"
  shows "\<exists>vs. BaseNode_multi_step_forward step self xs =
           Inr (ys, if store_v_seq s1 then s1\<lparr>v_seq := Some vs\<rparr> else s1)"
  using seq ne
  by (auto simp add: multi_step_loop_sequential BaseNode_multi_step_forward_def
        split: sum.splits prod.splits)

lemma IFNode_train_step:
  "training self \<Longrightarrow> backend self = ''torch'' \<Longrightarrow>
   \<exists>y s1. IFNode_single_step_forward cupy_ss self x = Inr (y, s1)
      \<and> training s1 \<and> backend s1 = ''torch'' \<and> v_seq s1 = v_seq self
      \<and> store_v_seq s1 = store_v_seq self \<and> v_reset s1 = v_reset self
      \<and> v_threshold s1 = v_threshold self \<and> surrogate_function s1 = surrogate_function self"
  by (cases "v_reset self"; cases "v self")
     (simp_all add: IFNode_single_step_forward_def BaseNode_single_step_forward_def Let_def
        IFNode_neuronal_charge_def neuronal_reset_def v_float_to_tensor_def)

lemma IFNode_multi_eq_sequential:
  fixes self :: "('i, 'm) base_node_scheme"
  assumes mode: "\<not> training self \<or> backend self = ''torch''" and ne: "xs \<noteq> []"
  shows "\<exists>ys s_multi s_single.
           IFNode_multi_step_forward cupy_ss cupy_ms self xs = Inr (ys, s_multi)
         \<and> sequential_single_steps (IFNode_single_step_forward cupy_ss) self xs
             = Inr (ys, s_single)
         \<and> length ys = length xs
         \<and> v s_multi = v s_single
         \<and> s_single = s_multi\<lparr>v_seq := v_seq self\<rparr>"
proof (cases "training self")
  case False
  define th where "th = v_threshold self"
  define vr where "vr = v_reset self"
  define P where "P = (\<lambda>s :: ('i, 'm) base_node_scheme.
                        \<not> training s \<and> v_threshold s = th \<and> v_reset s = vr)"
  have P0: "P self" using False by (simp add: P_def th_def vr_def)
  have seq: "sequential_single_steps (IFNode_single_step_forward cupy_ss) self xs =
           Inr (fst (IFNode_eval_loop th vr xs (as_tensor (v self))),
                if xs = [] then self
                else self\<lparr>v := Tensor_mem (snd (IFNode_eval_loop th vr xs (as_tensor (v self))))\<rparr>)"
  proof (rule sequential_kernel_steps[where P = P])
    show "IFNode_single_step_forward cupy_ss s x =
            Inr (fst (IFNode_eval_step th vr x (as_tensor (v s))),
                 s\<lparr>v := Tensor_mem (snd (IFNode_eval_step th vr x (as_tensor (v s))))\<rparr>)"
      if "P s" for s x
      using that IFNode_eval_single_step[of s cupy_ss x] by (simp add: P_def)
    show "P (s\<lparr>v := m\<rparr>)" if "P s" for s m using that by (simp add: P_def)
    show "IFNode_eval_loop th vr [] t = ([], t)" for t by (rule IFNode_eval_loop_Nil)
    show "IFNode_eval_loop th vr (x # xs) t =
            (fst (IFNode_eval_step th vr x t)
               # fst (IFNode_eval_loop th vr xs (snd (IFNode_eval_step th vr x t))),
             snd (IFNode_eval_loop th vr xs (snd (IFNode_eval_step th vr x t))))" for x xs t
      by (rule IFNode_eval_loop_Cons)
    show "P self" by (rule P0)
  qed
  from IFNode_eval_multi_step[OF False ne, of cupy_ss cupy_ms] obtain vs where
    multi: "IFNode_multi_step_forward cupy_ss cupy_ms self xs =
     Inr (fst (IFNode_eval_loop th vr xs (as_tensor (v self))),
          (self\<lparr>v := Tensor_mem (snd (IFNode_eval_loop th vr xs (as_tensor (v self))))\<rparr>)
            \<lparr>v_seq := if store_v_seq self then Some vs else v_seq self\<rparr>)"
    unfolding th_def vr_def by blast
  show ?thesis
    using ne by (simp add: multi seq IFNode_eval_loop_length)
next
  case True
  with mode have be: "backend self = ''torch''" by simp
  define P where "P = (\<lambda>s :: ('i, 'm) base_node_scheme.
       training s \<and> backend s = ''torch'' \<and> v_seq s = v_seq self
         \<and> store_v_seq s = store_v_seq self)"
  have P0: "P self" using True be by (simp add: P_def)
  have "\<exists>ys s1. sequential_single_steps (IFNode_single_step_forward cupy_ss) self xs
                   = Inr (ys, s1) \<and> P s1 \<and> length ys = length xs \<and> (xs \<noteq> [] \<longrightarrow> True)"
  proof (rule sequential_single_steps_invariant[where P = P and Q = "\<lambda>s. True"])
    show "\<exists>y s1. IFNode_single_step_forward cupy_ss s x = Inr (y, s1) \<and> P s1 \<and> True"
      if "P s" for s x
      using that IFNode_train_step[of s cupy_ss x] by (auto simp add: P_def)
    show "P self" by (rule P0)
  qed
  then obtain ys s1 where
    seq: "sequential_single_steps (IFNode_single_step_forward cupy_ss) self xs = Inr (ys, s1)"
    and P1: "P s1" and len: "length ys = length xs"
    by blast
  from len ne have "ys \<noteq> []" by auto
  from BaseNode_multi_step_forward_sequential[OF seq this] obtain vs where
    multi: "BaseNode_multi_step_forward (IFNode_single_step_forward cupy_ss) self xs =
           Inr (ys, if store_v_seq s1 then s1\<lparr>v_seq := Some vs\<rparr> else s1)"
    by blast
  have m: "IFNode_multi_step_forward cupy_ss cupy_ms self xs =
           Inr (ys, if store_v_seq s1 then s1\<lparr>v_seq := Some vs\<rparr> else s1)"
    using True be multi by (simp add: IFNode_multi_step_forward_def)
  have unch: "s1\<lparr>v_seq := v_seq self\<rparr> = s1" using P1 by (simp add: P_def)
  show ?thesis
    using m seq len unch P1 by (auto simp add: P_def)
qed

lemma LIFNode_train_step:
  "training self \<Longrightarrow> backend self = ''torch'' \<Longrightarrow>
   \<exists>y s1. LIFNode_single_step_forward cupy_ss self x = Inr (y, s1)
      \<and> training s1 \<and> backend s1 = ''torch'' \<and> v_seq s1 = v_seq self
      \<and> store_v_seq s1 = store_v_seq self \<and> v_reset s1 = v_reset self
      \<and> v_threshold s1 = v_threshold self \<and> surrogate_function s1 = surrogate_function self"
  by (cases "v_reset self"; cases "v self"; cases "lif_node.decay_input self")
     (simp_all add: LIFNode_single_step_forward_def BaseNode_single_step_forward_def Let_def
        LIFNode_neuronal_charge_def neuronal_reset_def v_float_to_tensor_def)

lemma LIFNode_multi_eq_sequential:
  fixes self :: "('i, 'm) lif_node_scheme"
  assumes mode: "\<not> training self \<or> backend self = ''torch''" and ne: "xs \<noteq> []"
  shows "\<exists>ys s_multi s_single.
           LIFNode_multi_step_forward cupy_ss cupy_ms self xs = Inr (ys, s_multi)
         \<and> sequential_single_steps (LIFNode_single_step_forward cupy_ss) self xs
             = Inr (ys, s_single)
         \<and> length ys = length xs
         \<and> v s_multi = v s_single
         \<and> s_single = s_multi\<lparr>v_seq := v_seq self\<rparr>"
proof (cases "training self")
  case False
  define th where "th = v_threshold self"
  define vr where "vr = v_reset self"
  define ta where "ta = lif_node.tau self"
  define d where "d = lif_node.decay_input self"
  define P where "P = (\<lambda>s :: ('i, 'm) lif_node_scheme.
                        \<not> training s \<and> v_threshold s = th \<and> v_reset s = vr
                          \<and> lif_node.tau s = ta \<and> lif_node.decay_input s = d)"
  have P0: "P self" using False by (simp add: P_def th_def vr_def ta_def d_def)
  have seq: "sequential_single_steps (LIFNode_single_step_forward cupy_ss) self xs =
           Inr (fst (LIFNode_eval_loop th vr ta d xs (as_tensor (v self))),
                if xs = [] then self
                else self\<lparr>v := Tensor_mem (snd (LIFNode_eval_loop th vr ta d xs (as_tensor (v self))))\<rparr>)"
  proof (rule sequential_kernel_steps[where P = P])
    show "LIFNode_single_step_forward cupy_ss s x =
            Inr (fst (LIFNode_eval_step th vr ta d x (as_tensor (v s))),
                 s\<lparr>v := Tensor_mem (snd (LIFNode_eval_step th vr ta d x (as_tensor (v s))))\<rparr>)"
      if "P s" for s x
      using that LIFNode_eval_single_step[of s cupy_ss x] by (simp add: P_def)
    show "P (s\<lparr>v := m\<rparr>)" if "P s" for s m using that by (simp add: P_def)
    show "LIFNode_eval_loop th vr ta d [] t = ([], t)" for t by (rule LIFNode_eval_loop_Nil)
    show "LIFNode_eval_loop th vr ta d (x # xs) t =
            (fst (LIFNode_eval_step th vr ta d x t)
               # fst (LIFNode_eval_loop th vr ta d xs (snd (LIFNode_eval_step th vr ta d x t))),
             snd (LIFNode_eval_loop th vr ta d xs (snd (LIFNode_eval_step th vr ta d x t))))" for x xs t
      by (rule LIFNode_eval_loop_Cons)
    show "P self" by (rule P0)
  qed
  from LIFNode_eval_multi_step[OF False ne, of cupy_ss cupy_ms] obtain vs where
    multi: "LIFNode_multi_step_forward cupy_ss cupy_ms self xs =
     Inr (fst (LIFNode_eval_loop th vr ta d xs (as_tensor (v self))),
          (self\<lparr>v := Tensor_mem (snd (LIFNode_eval_loop th vr ta d xs (as_tensor (v self))))\<rparr>)
            \<lparr>v_seq := if store_v_seq self then Some vs else v_seq self\<rparr>)"
    unfolding th_def vr_def ta_def d_def by blast
  show ?thesis
    using ne by (simp add: multi seq LIFNode_eval_loop_length)
next
  case True
  with mode have be: "backend self = ''torch''" by simp
  define P where "P = (\<lambda>s :: ('i, 'm) lif_node_scheme.
       training s \<and> backend s = ''torch'' \<and> v_seq s = v_seq self
         \<and> store_v_seq s = store_v_seq self)"
  have P0: "P self" using True be by (simp add: P_def)
  have "\<exists>ys s1. sequential_single_steps (LIFNode_single_step_forward cupy_ss) self xs
                   = Inr (ys, s1) \<and> P s1 \<and> length ys = length xs \<and> (xs \<noteq> [] \<longrightarrow> True)"
  proof (rule sequential_single_steps_invariant[where P = P and Q = "\<lambda>s. True"])
    show "\<exists>y s1. LIFNode_single_step_forward cupy_ss s x = Inr (y, s1) \<and> P s1 \<and> True"
      if "P s" for s x
      using that LIFNode_train_step[of s cupy_ss x] by (auto simp add: P_def)
    show "P self" by (rule P0)
  qed
  then obtain ys s1 where
    seq: "sequential_single_steps (LIFNode_single_step_forward cupy_ss) self xs = Inr (ys, s1)"
    and P1: "P s1" and len: "length ys = length xs"
    by blast
  from len ne have "ys \<noteq> []" by auto
  from BaseNode_multi_step_forward_sequential[OF seq this] obtain vs where
    multi: "BaseNode_multi_step_forward (LIFNode_single_step_forward cupy_ss) self xs =
           Inr (ys, if store_v_seq s1 then s1\<lparr>v_seq := Some vs\<rparr> else s1)"
    by blast
  have m: "LIFNode_multi_step_forward cupy_ss cupy_ms self xs =
           Inr (ys, if store_v_seq s1 then s1\<lparr>v_seq := Some vs\<rparr> else s1)"
    using True be multi by (simp add: LIFNode_multi_step_forward_def)
  have unch: "s1\<lparr>v_seq := v_seq self\<rparr> = s1" using P1 by (simp add: P_def)
  show ?thesis
    using m seq len unch P1 by (auto simp add: P_def)
qed

section \<open>The potential after a hard reset\<close>









section \<open>Claim C2: the order of charge, fire and reset\<close>

lemma IFNode_single_step_is_charge_fire_reset:
  assumes "training self \<and> backend self = ''torch''
           \<or> \<not> training self \<and> surrogate_function self = heaviside"
  shows "IFNode_single_step_forward cupy_ss self x =
     Inr (BaseNode_single_step_forward IFNode_neuronal_charge neuronal_fire neuronal_reset self x)"
proof (cases "training self")
  case True
  with assms show ?thesis by (simp add: IFNode_single_step_forward_def)
next
  case False
  with assms have sg: "surrogate_function self = heaviside" by simp
  show ?thesis
    using False sg
    by (cases "v_reset self")
       (simp_all add: IFNode_single_step_forward_def BaseNode_single_step_forward_def Let_def
          IFNode_jit_eval_single_step_forward_hard_reset_def
          IFNode_jit_eval_single_step_forward_soft_reset_def
          IFNode_neuronal_charge_def neuronal_fire_def neuronal_reset_def heaviside_def
          ge_to_def jit_hard_reset_def jit_soft_reset_def detach_def mult.commute add.commute)
qed

lemma LIFNode_single_step_is_charge_fire_reset:
  assumes "training self \<and> backend self = ''torch''
           \<or> \<not> training self \<and> surrogate_function self = heaviside"
  shows "LIFNode_single_step_forward cupy_ss self x =
     Inr (BaseNode_single_step_forward LIFNode_neuronal_charge neuronal_fire neuronal_reset self x)"
proof (cases "training self")
  case True
  with assms show ?thesis by (simp add: LIFNode_single_step_forward_def)
next
  case False
  with assms have sg: "surrogate_function self = heaviside" by simp
  show ?thesis
    using False sg
    by (cases "v_reset self"; cases "lif_node.decay_input self")
       (simp_all add: LIFNode_single_step_forward_def BaseNode_single_step_forward_def Let_def
          LIFNode_jit_eval_single_step_forward_hard_reset_decay_input_def
          LIFNode_jit_eval_single_step_forward_hard_reset_no_decay_input_def
          LIFNode_jit_eval_single_step_forward_soft_reset_decay_input_def
          LIFNode_jit_eval_single_step_forward_soft_reset_no_decay_input_def
          LIFNode_neuronal_charge_decay_input_reset0_def LIFNode_neuronal_charge_decay_input_def
          LIFNode_neuronal_charge_no_decay_input_reset0_def
          LIFNode_neuronal_charge_no_decay_input_def
          LIFNode_neuronal_charge_def neuronal_fire_def neuronal_reset_def heaviside_def
          ge_to_def jit_hard_reset_def jit_soft_reset_def detach_def mult.commute add.commute
          algebra_simps)
qed

lemma GatedLIFNode_loop_step:
  "GatedLIFNode_loop g al be ga xs spike_before (t # ts) =
     (if length xs \<le> t \<or> length (gated_lif_node.conduct g) \<le> t then Inl IndexError
      else
        (case GatedLIFNode_loop
                ((GatedLIFNode_neuronal_reset (GatedLIFNode_neuronal_charge g (xs ! t) al be t)
                    spike_before al ga)
                 \<lparr>gated_lif_node.v := gated_lif_node.u
                    (GatedLIFNode_neuronal_reset
                       (GatedLIFNode_neuronal_charge g (xs ! t) al be t) spike_before al ga)\<rparr>)
                al be ga xs
                (GatedLIFNode_neuronal_fire
                   (GatedLIFNode_neuronal_reset
                      (GatedLIFNode_neuronal_charge g (xs ! t) al be t) spike_before al ga))
                ts of
           Inl e \<Rightarrow> Inl e
         | Inr (y_seq, g1) \<Rightarrow>
             Inr (GatedLIFNode_neuronal_fire
                    (GatedLIFNode_neuronal_reset
                       (GatedLIFNode_neuronal_charge g (xs ! t) al be t) spike_before al ga)
                  # y_seq, g1)))"
  by (simp add: Let_def)

lemma gated_example_run:
  "GatedLIFNode_multi_step_forward (example_gated_node :: unit gated_lif_node) [\<lambda>i. 4]
     = Inr ([\<lambda>i. 1], example_gated_node\<lparr>gated_lif_node.u := Tensor_mem (\<lambda>i. 11 / 4),
                                         gated_lif_node.v := Tensor_mem (\<lambda>i. 11 / 4)\<rparr>)"
  by (simp add: GatedLIFNode_multi_step_forward_def example_gated_node_def Let_def
        GatedLIFNode_neuronal_charge_def GatedLIFNode_neuronal_reset_def
        GatedLIFNode_neuronal_fire_def sigmoid_def heaviside_def)

text \<open>
  Claim C2, as the code has it.  \<open>BaseNode.single_step_forward\<close> returns the spike
  \<open>fire(charge(state, x))\<close> together with the state \<open>reset\<close> of that same spike, whatever the
  methods of the variant are.  Every step of an IFNode, a LIFNode, a ParametricLIFNode
  and a KLIFNode is this composition: in training mode with the torch backend, and for
  IFNode and LIFNode also in evaluation mode (the jit kernels, against the step function
  as surrogate); one \<open>multi_step_forward\<close> over at least one time step makes these steps in
  sequence.  The loop of \<open>GatedLIFNode.multi_step_forward\<close> is different: an iteration
  charges, applies the reset with the spike of the iteration before, then fires, and
  keeps the potential of before that fire.
\<close>

theorem step_is_reset_after_fire_after_charge:
  fixes self :: "('i, 'm) base_node_scheme" and lif :: "('i, 'n) lif_node_scheme"
    and plif :: "('i, 'p) plif_node_scheme" and klif :: "('i, 'q) klif_node_scheme"
  assumes "training self \<and> backend self = ''torch''
           \<or> \<not> training self \<and> surrogate_function self = heaviside"
    and "training lif \<and> backend lif = ''torch''
           \<or> \<not> training lif \<and> surrogate_function lif = heaviside"
    and "x_seq \<noteq> []"
  shows "BaseNode_single_step_forward charge fire reset s x
           = (fire (charge (v_float_to_tensor s x) x),
              reset (charge (v_float_to_tensor s x) x) (fire (charge (v_float_to_tensor s x) x)))
       \<and> IFNode_single_step_forward cupy_ss self x
           = Inr (BaseNode_single_step_forward IFNode_neuronal_charge neuronal_fire
                    neuronal_reset self x)
       \<and> LIFNode_single_step_forward lif_cupy_ss lif x
           = Inr (BaseNode_single_step_forward LIFNode_neuronal_charge neuronal_fire
                    neuronal_reset lif x)
       \<and> ParametricLIFNode_single_step_forward plif x
           = Inr (BaseNode_single_step_forward ParametricLIFNode_neuronal_charge neuronal_fire
                    neuronal_reset plif x)
       \<and> KLIFNode_single_step_forward klif x
           = BaseNode_single_step_forward KLIFNode_neuronal_charge neuronal_fire
               KLIFNode_neuronal_reset klif x
       \<and> (\<exists>y_seq s_multi s_single.
             IFNode_multi_step_forward cupy_ss cupy_ms self x_seq = Inr (y_seq, s_multi)
           \<and> sequential_single_steps (IFNode_single_step_forward cupy_ss) self x_seq
               = Inr (y_seq, s_single)
           \<and> v s_multi = v s_single)
       \<and> (\<exists>y_seq s_multi s_single.
             LIFNode_multi_step_forward lif_cupy_ss lif_cupy_ms lif x_seq = Inr (y_seq, s_multi)
           \<and> sequential_single_steps (LIFNode_single_step_forward lif_cupy_ss) lif x_seq
               = Inr (y_seq, s_single)
           \<and> v s_multi = v s_single)
       \<and> GatedLIFNode_loop g al be ga xs spike_before (t # ts) =
          (if length xs \<le> t \<or> length (gated_lif_node.conduct g) \<le> t then Inl IndexError
           else
             (case GatedLIFNode_loop
                     ((GatedLIFNode_neuronal_reset
                         (GatedLIFNode_neuronal_charge g (xs ! t) al be t) spike_before al ga)
                      \<lparr>gated_lif_node.v := gated_lif_node.u
                         (GatedLIFNode_neuronal_reset
                            (GatedLIFNode_neuronal_charge g (xs ! t) al be t)
                            spike_before al ga)\<rparr>)
                     al be ga xs
                     (GatedLIFNode_neuronal_fire
                        (GatedLIFNode_neuronal_reset
                           (GatedLIFNode_neuronal_charge g (xs ! t) al be t)
                           spike_before al ga))
                     ts of
                Inl e \<Rightarrow> Inl e
              | Inr (y_seq, g1) \<Rightarrow>
                  Inr (GatedLIFNode_neuronal_fire
                         (GatedLIFNode_neuronal_reset
                            (GatedLIFNode_neuronal_charge g (xs ! t) al be t)
                            spike_before al ga)
                       # y_seq, g1)))"
proof -
  from assms(1) have m1: "\<not> training self \<or> backend self = ''torch''" by blast
  from assms(2) have m2: "\<not> training lif \<or> backend lif = ''torch''" by blast
  have a: "BaseNode_single_step_forward charge fire reset s x
           = (fire (charge (v_float_to_tensor s x) x),
              reset (charge (v_float_to_tensor s x) x) (fire (charge (v_float_to_tensor s x) x)))"
    by (simp add: BaseNode_single_step_forward_def Let_def)
  have d: "ParametricLIFNode_single_step_forward plif x
           = Inr (BaseNode_single_step_forward ParametricLIFNode_neuronal_charge neuronal_fire
                    neuronal_reset plif x)"
    by (simp add: ParametricLIFNode_single_step_forward_def)
  have e: "KLIFNode_single_step_forward klif x
           = BaseNode_single_step_forward KLIFNode_neuronal_charge neuronal_fire
               KLIFNode_neuronal_reset klif x"
    by (simp add: KLIFNode_single_step_forward_def)
  have f: "\<exists>y_seq s_multi s_single.
             IFNode_multi_step_forward cupy_ss cupy_ms self x_seq = Inr (y_seq, s_multi)
           \<and> sequential_single_steps (IFNode_single_step_forward cupy_ss) self x_seq
               = Inr (y_seq, s_single)
           \<and> v s_multi = v s_single"
    using IFNode_multi_eq_sequential[OF m1 assms(3), of cupy_ss cupy_ms] by blast
  have g: "\<exists>y_seq s_multi s_single.
             LIFNode_multi_step_forward lif_cupy_ss lif_cupy_ms lif x_seq = Inr (y_seq, s_multi)
           \<and> sequential_single_steps (LIFNode_single_step_forward lif_cupy_ss) lif x_seq
               = Inr (y_seq, s_single)
           \<and> v s_multi = v s_single"
    using LIFNode_multi_eq_sequential[OF m2 assms(3), of lif_cupy_ss lif_cupy_ms] by blast
  from a IFNode_single_step_is_charge_fire_reset[OF assms(1), of cupy_ss x]
    LIFNode_single_step_is_charge_fire_reset[OF assms(2), of lif_cupy_ss x] d e f g
    GatedLIFNode_loop_step[of g al be ga xs spike_before t ts]
  show ?thesis by blast
qed

theorem step_is_reset_after_fire_after_charge_witness:
  "IFNode_single_step_forward cupy_missing
       (scenario_if_node\<lparr>training := False\<rparr> :: unit base_node) (\<lambda>i. 6 / 10)
     = Inr (BaseNode_single_step_forward IFNode_neuronal_charge neuronal_fire neuronal_reset
              (scenario_if_node\<lparr>training := False\<rparr>) (\<lambda>i. 6 / 10))
   \<and> LIFNode_single_step_forward cupy_missing (example_lif_node :: unit lif_node) (\<lambda>i. 6 / 10)
     = Inr (BaseNode_single_step_forward LIFNode_neuronal_charge neuronal_fire neuronal_reset
              example_lif_node (\<lambda>i. 6 / 10))
   \<and> (\<exists>y_seq s_multi s_single.
         IFNode_multi_step_forward cupy_missing cupy_missing
             (scenario_if_node\<lparr>training := False\<rparr> :: unit base_node) scenario_x_seq
           = Inr (y_seq, s_multi)
       \<and> sequential_single_steps (IFNode_single_step_forward cupy_missing)
             (scenario_if_node\<lparr>training := False\<rparr>) scenario_x_seq = Inr (y_seq, s_single)
       \<and> v s_multi = v s_single)"
proof -
  have h1: "training (scenario_if_node\<lparr>training := False\<rparr> :: unit base_node)
              \<and> backend (scenario_if_node\<lparr>training := False\<rparr> :: unit base_node) = ''torch''
            \<or> \<not> training (scenario_if_node\<lparr>training := False\<rparr> :: unit base_node)
              \<and> surrogate_function (scenario_if_node\<lparr>training := False\<rparr> :: unit base_node)
                  = heaviside"
    by (simp add: scenario_if_node_fields)
  have h2: "training (example_lif_node :: unit lif_node)
              \<and> backend (example_lif_node :: unit lif_node) = ''torch''
            \<or> \<not> training (example_lif_node :: unit lif_node)
              \<and> surrogate_function (example_lif_node :: unit lif_node) = heaviside"
    by (simp add: example_lif_node_fields)
  have h3: "(scenario_x_seq :: unit tensor list) \<noteq> []"
    by (simp add: scenario_x_seq_def)
  show ?thesis
    using step_is_reset_after_fire_after_charge
            [OF h1 h2 h3, where cupy_ss = cupy_missing and cupy_ms = cupy_missing
               and lif_cupy_ss = cupy_missing and x = "\<lambda>i. 6 / 10"]
    by blast
qed

text \<open>
  Claim C2 as stated fails on GatedLIFNode: on the input 4 the single time step charges
  to 2.75, fires (the threshold is 0.5), and returns with the potential still at 2.75;
  the reset driven by that spike, which would give 2.5, is not applied before the step
  returns.
\<close>

theorem GatedLIFNode_step_returns_without_reset_of_its_spike:
  "GatedLIFNode_multi_step_forward (example_gated_node :: unit gated_lif_node) [\<lambda>i. 4]
     = Inr ([\<lambda>i. 1], example_gated_node\<lparr>gated_lif_node.u := Tensor_mem (\<lambda>i. 11 / 4),
                                         gated_lif_node.v := Tensor_mem (\<lambda>i. 11 / 4)\<rparr>)
   \<and> as_tensor (gated_lif_node.u
        (GatedLIFNode_neuronal_charge (example_gated_node :: unit gated_lif_node) (\<lambda>i. 4)
           (\<lambda>i. 1 / 2) (\<lambda>i. 1 / 2) 0)) () = 11 / 4
   \<and> as_tensor (gated_lif_node.u
        (GatedLIFNode_neuronal_reset
           (GatedLIFNode_neuronal_charge (example_gated_node :: unit gated_lif_node) (\<lambda>i. 4)
              (\<lambda>i. 1 / 2) (\<lambda>i. 1 / 2) 0)
           (\<lambda>i. 1) (\<lambda>i. 1 / 2) (\<lambda>i. 1 / 2))) () = 5 / 2"
  by (simp add: gated_example_run)
     (simp add: example_gated_node_def GatedLIFNode_neuronal_charge_def
        GatedLIFNode_neuronal_reset_def sigmoid_def)

section \<open>Claim C3: what a hard reset leaves\<close>








section \<open>Claim C4: the potential stays below the threshold\<close>




section \<open>Claim C5: one multi-step call against sequential single-step calls\<close>

lemma total_steps_multi_eq_sequential:
  fixes self :: "('i, 'm) base_node_scheme"
  assumes total: "\<And>s x. P s \<Longrightarrow> \<exists>y s1. step s x = Inr (y, s1) \<and> P s1 \<and> v_seq s1 = v_seq s"
    and P0: "P self" and ne: "xs \<noteq> []"
  shows "\<exists>ys s_multi s_single.
           BaseNode_multi_step_forward step self xs = Inr (ys, s_multi)
         \<and> sequential_single_steps step self xs = Inr (ys, s_single)
         \<and> length ys = length xs
         \<and> v s_multi = v s_single
         \<and> s_single = s_multi\<lparr>v_seq := v_seq self\<rparr>"
proof -
  define R where "R = (\<lambda>s :: ('i, 'm) base_node_scheme. P s \<and> v_seq s = v_seq self)"
  have "\<exists>ys s1. sequential_single_steps step self xs = Inr (ys, s1) \<and> R s1
          \<and> length ys = length xs \<and> (xs \<noteq> [] \<longrightarrow> True)"
  proof (rule sequential_single_steps_invariant[where P = R and Q = "\<lambda>s. True"])
    show "\<exists>y s1. step s x = Inr (y, s1) \<and> R s1 \<and> True" if "R s" for s x
      using that total[of s x] by (auto simp add: R_def)
    show "R self" using P0 by (simp add: R_def)
  qed
  then obtain ys s1 where
    seq: "sequential_single_steps step self xs = Inr (ys, s1)"
    and R1: "R s1" and len: "length ys = length xs"
    by blast
  from len ne have "ys \<noteq> []" by auto
  from BaseNode_multi_step_forward_sequential[OF seq this] obtain vs where
    multi: "BaseNode_multi_step_forward step self xs =
           Inr (ys, if store_v_seq s1 then s1\<lparr>v_seq := Some vs\<rparr> else s1)"
    by blast
  have unch: "s1\<lparr>v_seq := v_seq self\<rparr> = s1" using R1 by (simp add: R_def)
  show ?thesis
    using multi seq len unch by auto
qed

lemma BaseNode_steps_multi_eq_sequential:
  fixes self :: "('i, 'm) base_node_scheme"
  assumes ne: "xs \<noteq> []"
  shows "\<exists>ys s_multi s_single.
           BaseNode_multi_step_forward
             (\<lambda>s x. Inr (BaseNode_single_step_forward charge fire reset s x)) self xs
             = Inr (ys, s_multi)
         \<and> sequential_single_steps
             (\<lambda>s x. Inr (BaseNode_single_step_forward charge fire reset s x)) self xs
             = Inr (ys, s_single)
         \<and> length ys = length xs
         \<and> v s_multi = v s_single"
proof -
  define step where
    "step = (\<lambda>(s :: ('i, 'm) base_node_scheme) (x :: 'i tensor).
               (Inr (BaseNode_single_step_forward charge fire reset s x)
                 :: error + 'i tensor \<times> ('i, 'm) base_node_scheme))"
  have "\<exists>ys s1. sequential_single_steps step self xs = Inr (ys, s1) \<and> True
          \<and> length ys = length xs \<and> (xs \<noteq> [] \<longrightarrow> True)"
  proof (rule sequential_single_steps_invariant[where P = "\<lambda>s. True" and Q = "\<lambda>s. True"])
    show "\<exists>y s1. step s x = Inr (y, s1) \<and> True \<and> True" for s x
      by (simp add: step_def prod_eq_iff)
    show True by simp
  qed
  then obtain ys s1 where
    seq: "sequential_single_steps step self xs = Inr (ys, s1)"
    and len: "length ys = length xs"
    by blast
  from len ne have "ys \<noteq> []" by auto
  from BaseNode_multi_step_forward_sequential[OF seq this] obtain vs where
    multi: "BaseNode_multi_step_forward step self xs =
           Inr (ys, if store_v_seq s1 then s1\<lparr>v_seq := Some vs\<rparr> else s1)"
    by blast
  show ?thesis
    using multi seq len unfolding step_def by auto
qed

lemma ParametricLIFNode_step_keeps_v_seq:
  "\<exists>y s1. ParametricLIFNode_single_step_forward s x = Inr (y, s1)
           \<and> backend s1 = backend s \<and> v_seq s1 = v_seq s"
  by (cases "v_reset s"; cases "v s"; cases "plif_node.decay_input s")
     (simp_all add: ParametricLIFNode_single_step_forward_def BaseNode_single_step_forward_def
        Let_def ParametricLIFNode_neuronal_charge_def neuronal_reset_def v_float_to_tensor_def)

lemma KLIFNode_step_keeps_v_seq:
  "\<exists>y s1. (Inr (KLIFNode_single_step_forward s x)
              :: error + 'i tensor \<times> ('i, 'm) klif_node_scheme) = Inr (y, s1)
           \<and> True \<and> v_seq s1 = v_seq s"
  by (cases "v_reset s"; cases "v s"; cases "klif_node.decay_input s";
      cases "klif_node.scale_reset s")
     (simp_all add: KLIFNode_single_step_forward_def BaseNode_single_step_forward_def
        Let_def KLIFNode_neuronal_charge_def KLIFNode_neuronal_reset_def v_float_to_tensor_def)

lemma ParametricLIFNode_multi_eq_sequential:
  fixes self :: "('i, 'm) plif_node_scheme"
  assumes be: "backend self = ''torch''" and ne: "xs \<noteq> []"
  shows "\<exists>ys s_multi s_single.
           ParametricLIFNode_multi_step_forward cupy_ms self xs = Inr (ys, s_multi)
         \<and> sequential_single_steps ParametricLIFNode_single_step_forward self xs
             = Inr (ys, s_single)
         \<and> length ys = length xs
         \<and> v s_multi = v s_single
         \<and> s_single = s_multi\<lparr>v_seq := v_seq self\<rparr>"
proof -
  have "\<exists>ys s_multi s_single.
           BaseNode_multi_step_forward ParametricLIFNode_single_step_forward self xs
             = Inr (ys, s_multi)
         \<and> sequential_single_steps ParametricLIFNode_single_step_forward self xs
             = Inr (ys, s_single)
         \<and> length ys = length xs
         \<and> v s_multi = v s_single
         \<and> s_single = s_multi\<lparr>v_seq := v_seq self\<rparr>"
  proof (rule total_steps_multi_eq_sequential[where P = "\<lambda>s. True"])
    show "\<exists>y s1. ParametricLIFNode_single_step_forward s x = Inr (y, s1) \<and> True
            \<and> v_seq s1 = v_seq s" for s :: "('i, 'm) plif_node_scheme" and x
      using ParametricLIFNode_step_keeps_v_seq[of s x] by blast
    show True by simp
    show "xs \<noteq> []" by (rule ne)
  qed
  then show ?thesis
    using be by (simp add: ParametricLIFNode_multi_step_forward_def)
qed

lemma KLIFNode_multi_eq_sequential:
  fixes self :: "('i, 'm) klif_node_scheme"
  assumes ne: "xs \<noteq> []"
  shows "\<exists>ys s_multi s_single.
           KLIFNode_multi_step_forward self xs = Inr (ys, s_multi)
         \<and> sequential_single_steps (\<lambda>s x. Inr (KLIFNode_single_step_forward s x)) self xs
             = Inr (ys, s_single)
         \<and> length ys = length xs
         \<and> v s_multi = v s_single
         \<and> s_single = s_multi\<lparr>v_seq := v_seq self\<rparr>"
  unfolding KLIFNode_multi_step_forward_def
proof (rule total_steps_multi_eq_sequential[where P = "\<lambda>s. True"])
  show "\<exists>y s1. (Inr (KLIFNode_single_step_forward s x)
              :: error + 'i tensor \<times> ('i, 'm) klif_node_scheme) = Inr (y, s1) \<and> True
            \<and> v_seq s1 = v_seq s" for s :: "('i, 'm) klif_node_scheme" and x
    by (rule KLIFNode_step_keeps_v_seq)
  show True by simp
  show "xs \<noteq> []" by (rule ne)
qed

text \<open>
  Claim C5, as the code has it, for every input sequence of length \<open>T \<ge> 1\<close>.  One call of
  \<open>multi_step_forward\<close> and \<open>T\<close> sequential calls of \<open>single_step_forward\<close> from the same
  object both return, with the same spike sequence of length \<open>T\<close> and the same final
  membrane potential, and the two final objects differ at most in the captured trajectory
  \<open>v_seq\<close>, whether \<open>store_v_seq\<close> is set or not: for an IFNode and a LIFNode in evaluation
  mode or in training mode with the torch backend, for a ParametricLIFNode with the torch
  backend, for a KLIFNode, and for every variant whose step is
  \<open>BaseNode.single_step_forward\<close> on its own charge, fire and reset and whose multi-step
  call is \<open>BaseNode.multi_step_forward\<close>.
\<close>

theorem multi_step_forward_equals_sequential_single_steps:
  fixes self :: "('i, 'm) base_node_scheme" and lif :: "('i, 'n) lif_node_scheme"
    and plif :: "('i, 'p) plif_node_scheme" and klif :: "('i, 'q) klif_node_scheme"
    and s0 :: "('i, 'r) base_node_scheme"
  assumes "\<not> training self \<or> backend self = ''torch''"
    and "\<not> training lif \<or> backend lif = ''torch''"
    and "x_seq \<noteq> []"
  shows "(\<exists>y_seq s_multi s_single.
            IFNode_multi_step_forward cupy_ss cupy_ms self x_seq = Inr (y_seq, s_multi)
          \<and> sequential_single_steps (IFNode_single_step_forward cupy_ss) self x_seq
              = Inr (y_seq, s_single)
          \<and> length y_seq = length x_seq
          \<and> v s_multi = v s_single
          \<and> s_single = s_multi\<lparr>v_seq := v_seq self\<rparr>)
       \<and> (\<exists>y_seq s_multi s_single.
            LIFNode_multi_step_forward lif_cupy_ss lif_cupy_ms lif x_seq = Inr (y_seq, s_multi)
          \<and> sequential_single_steps (LIFNode_single_step_forward lif_cupy_ss) lif x_seq
              = Inr (y_seq, s_single)
          \<and> length y_seq = length x_seq
          \<and> v s_multi = v s_single
          \<and> s_single = s_multi\<lparr>v_seq := v_seq lif\<rparr>)
       \<and> (backend plif = ''torch'' \<longrightarrow>
           (\<exists>y_seq s_multi s_single.
              ParametricLIFNode_multi_step_forward plif_cupy_ms plif x_seq
                = Inr (y_seq, s_multi)
            \<and> sequential_single_steps ParametricLIFNode_single_step_forward plif x_seq
                = Inr (y_seq, s_single)
            \<and> length y_seq = length x_seq
            \<and> v s_multi = v s_single
            \<and> s_single = s_multi\<lparr>v_seq := v_seq plif\<rparr>))
       \<and> (\<exists>y_seq s_multi s_single.
            KLIFNode_multi_step_forward klif x_seq = Inr (y_seq, s_multi)
          \<and> sequential_single_steps (\<lambda>s x. Inr (KLIFNode_single_step_forward s x)) klif x_seq
              = Inr (y_seq, s_single)
          \<and> length y_seq = length x_seq
          \<and> v s_multi = v s_single
          \<and> s_single = s_multi\<lparr>v_seq := v_seq klif\<rparr>)
       \<and> (\<exists>y_seq s_multi s_single.
            BaseNode_multi_step_forward
              (\<lambda>s x. Inr (BaseNode_single_step_forward charge fire reset s x)) s0 x_seq
              = Inr (y_seq, s_multi)
          \<and> sequential_single_steps
              (\<lambda>s x. Inr (BaseNode_single_step_forward charge fire reset s x)) s0 x_seq
              = Inr (y_seq, s_single)
          \<and> length y_seq = length x_seq
          \<and> v s_multi = v s_single)"
  using IFNode_multi_eq_sequential[OF assms(1,3)] LIFNode_multi_eq_sequential[OF assms(2,3)]
    ParametricLIFNode_multi_eq_sequential[OF _ assms(3), of plif plif_cupy_ms]
    KLIFNode_multi_eq_sequential[OF assms(3), of klif]
    BaseNode_steps_multi_eq_sequential[OF assms(3), of charge fire reset s0]
  by blast

theorem multi_step_forward_equals_sequential_single_steps_witness:
  "(\<exists>y_seq s_multi s_single.
      IFNode_multi_step_forward cupy_missing cupy_missing
          (scenario_if_node\<lparr>store_v_seq := True\<rparr> :: unit base_node) scenario_x_seq
        = Inr (y_seq, s_multi)
    \<and> sequential_single_steps (IFNode_single_step_forward cupy_missing)
          (scenario_if_node\<lparr>store_v_seq := True\<rparr>) scenario_x_seq = Inr (y_seq, s_single)
    \<and> length y_seq = length (scenario_x_seq :: unit tensor list)
    \<and> v s_multi = v s_single
    \<and> s_single = s_multi\<lparr>v_seq := v_seq (scenario_if_node :: unit base_node)\<rparr>)
 \<and> (\<exists>y_seq s_multi s_single.
      LIFNode_multi_step_forward cupy_missing cupy_missing
          (example_lif_node\<lparr>training := False\<rparr> :: unit lif_node) scenario_x_seq
        = Inr (y_seq, s_multi)
    \<and> sequential_single_steps (LIFNode_single_step_forward cupy_missing)
          (example_lif_node\<lparr>training := False\<rparr>) scenario_x_seq = Inr (y_seq, s_single)
    \<and> length y_seq = length (scenario_x_seq :: unit tensor list)
    \<and> v s_multi = v s_single
    \<and> s_single = s_multi\<lparr>v_seq := v_seq (example_lif_node :: unit lif_node)\<rparr>)
 \<and> (\<exists>y_seq s_multi s_single.
      ParametricLIFNode_multi_step_forward cupy_missing
          (example_plif_node\<lparr>backend := ''torch''\<rparr> :: unit plif_node) scenario_x_seq
        = Inr (y_seq, s_multi)
    \<and> sequential_single_steps ParametricLIFNode_single_step_forward
          (example_plif_node\<lparr>backend := ''torch''\<rparr>) scenario_x_seq = Inr (y_seq, s_single)
    \<and> length y_seq = length (scenario_x_seq :: unit tensor list)
    \<and> v s_multi = v s_single
    \<and> s_single = s_multi\<lparr>v_seq := v_seq (example_plif_node :: unit plif_node)\<rparr>)
 \<and> (\<exists>y_seq s_multi s_single.
      KLIFNode_multi_step_forward (example_klif_node :: unit klif_node) scenario_x_seq
        = Inr (y_seq, s_multi)
    \<and> sequential_single_steps (\<lambda>s x. Inr (KLIFNode_single_step_forward s x))
          example_klif_node scenario_x_seq = Inr (y_seq, s_single)
    \<and> length y_seq = length (scenario_x_seq :: unit tensor list)
    \<and> v s_multi = v s_single
    \<and> s_single = s_multi\<lparr>v_seq := v_seq (example_klif_node :: unit klif_node)\<rparr>)"
proof -
  have h1: "\<not> training (scenario_if_node\<lparr>store_v_seq := True\<rparr> :: unit base_node)
            \<or> backend (scenario_if_node\<lparr>store_v_seq := True\<rparr> :: unit base_node) = ''torch''"
    by (simp add: scenario_if_node_fields)
  have h2: "\<not> training (example_lif_node\<lparr>training := False\<rparr> :: unit lif_node)
            \<or> backend (example_lif_node\<lparr>training := False\<rparr> :: unit lif_node) = ''torch''"
    by simp
  have h3: "(scenario_x_seq :: unit tensor list) \<noteq> []"
    by (simp add: scenario_x_seq_def)
  have h4: "backend (example_plif_node\<lparr>backend := ''torch''\<rparr> :: unit plif_node) = ''torch''"
    by simp
  have v1: "v_seq (scenario_if_node\<lparr>store_v_seq := True\<rparr> :: unit base_node)
              = v_seq (scenario_if_node :: unit base_node)"
    and v2: "v_seq (example_lif_node\<lparr>training := False\<rparr> :: unit lif_node)
              = v_seq (example_lif_node :: unit lif_node)"
    and v3: "v_seq (example_plif_node\<lparr>backend := ''torch''\<rparr> :: unit plif_node)
              = v_seq (example_plif_node :: unit plif_node)"
    by simp_all
  show ?thesis
    using multi_step_forward_equals_sequential_single_steps
            [OF h1 h2 h3, where cupy_ss = cupy_missing and cupy_ms = cupy_missing
               and lif_cupy_ss = cupy_missing and lif_cupy_ms = cupy_missing
               and plif_cupy_ms = cupy_missing
               and plif = "example_plif_node\<lparr>backend := ''torch''\<rparr> :: unit plif_node"
               and klif = "example_klif_node :: unit klif_node"]
          h4
    unfolding v1 v2 v3
    by blast
qed

text \<open>
  Claim C5 as stated fails on the sequence of length \<open>T = 0\<close>: with the capture of the
  trajectory enabled, \<open>multi_step_forward\<close> of an IFNode raises (in training mode
  \<open>torch.stack\<close> refuses the empty list of spikes, in evaluation mode \<open>x_seq[0]\<close> does not
  exist), while zero calls of \<open>single_step_forward\<close> return the empty spike sequence and
  leave the object as it was.
\<close>

theorem multi_step_forward_raises_on_the_empty_sequence:
  "IFNode_multi_step_forward cupy_missing cupy_missing
      (scenario_if_node\<lparr>store_v_seq := True\<rparr> :: unit base_node) []
     = Inl (RuntimeError ''stack expects a non-empty TensorList'')
   \<and> IFNode_multi_step_forward cupy_missing cupy_missing
      (scenario_if_node\<lparr>store_v_seq := True, training := False\<rparr> :: unit base_node) []
     = Inl IndexError
   \<and> sequential_single_steps (IFNode_single_step_forward cupy_missing)
      (scenario_if_node\<lparr>store_v_seq := True\<rparr> :: unit base_node) []
     = Inr ([], scenario_if_node\<lparr>store_v_seq := True\<rparr>)
   \<and> sequential_single_steps (IFNode_single_step_forward cupy_missing)
      (scenario_if_node\<lparr>store_v_seq := True, training := False\<rparr> :: unit base_node) []
     = Inr ([], scenario_if_node\<lparr>store_v_seq := True, training := False\<rparr>)"
  by (simp add: IFNode_multi_step_forward_def BaseNode_multi_step_forward_def
        scenario_if_node_fields)

section \<open>The integrate-and-fire scenario\<close>

lemma scenario_train_single:
  "sequential_single_steps (IFNode_single_step_forward cupy_ss) scenario_if_node scenario_x_seq
     = Inr ([\<lambda>i. 0, \<lambda>i. 1, \<lambda>i. 0, \<lambda>i. 1], scenario_if_node\<lparr>v := Tensor_mem (\<lambda>i. 0)\<rparr>)"
  by (simp add: scenario_if_node_def scenario_x_seq_def IFNode_init_def BaseNode_init_def
        IFNode_single_step_forward_def BaseNode_single_step_forward_def v_float_to_tensor_def
        IFNode_neuronal_charge_def neuronal_fire_def neuronal_reset_def heaviside_def
        jit_hard_reset_def full_like_def as_tensor_def detach_def Let_def)

lemma scenario_eval_single:
  "sequential_single_steps (IFNode_single_step_forward cupy_ss)
       (scenario_if_node\<lparr>training := False\<rparr>) scenario_x_seq
     = Inr ([\<lambda>i. 0, \<lambda>i. 1, \<lambda>i. 0, \<lambda>i. 1],
            scenario_if_node\<lparr>training := False, v := Tensor_mem (\<lambda>i. 0)\<rparr>)"
  by (simp add: scenario_if_node_def scenario_x_seq_def IFNode_init_def BaseNode_init_def
        IFNode_single_step_forward_def IFNode_jit_eval_single_step_forward_hard_reset_def
        v_float_to_tensor_def ge_to_def full_like_def as_tensor_def Let_def)

lemma scenario_train_multi:
  "IFNode_multi_step_forward cupy_ss cupy_ms scenario_if_node scenario_x_seq
     = Inr ([\<lambda>i. 0, \<lambda>i. 1, \<lambda>i. 0, \<lambda>i. 1], scenario_if_node\<lparr>v := Tensor_mem (\<lambda>i. 0)\<rparr>)"
  by (simp add: scenario_if_node_def scenario_x_seq_def IFNode_init_def BaseNode_init_def
        IFNode_multi_step_forward_def BaseNode_multi_step_forward_def
        IFNode_single_step_forward_def BaseNode_single_step_forward_def v_float_to_tensor_def
        IFNode_neuronal_charge_def neuronal_fire_def neuronal_reset_def heaviside_def
        jit_hard_reset_def full_like_def as_tensor_def detach_def Let_def)

lemma scenario_eval_multi:
  "IFNode_multi_step_forward cupy_ss cupy_ms (scenario_if_node\<lparr>training := False\<rparr>)
       scenario_x_seq
     = Inr ([\<lambda>i. 0, \<lambda>i. 1, \<lambda>i. 0, \<lambda>i. 1],
            scenario_if_node\<lparr>training := False, v := Tensor_mem (\<lambda>i. 0)\<rparr>)"
  by (simp add: scenario_if_node_def scenario_x_seq_def IFNode_init_def BaseNode_init_def
        IFNode_multi_step_forward_def v_float_to_tensor_def ge_to_def full_like_def
        as_tensor_def Let_def)

text \<open>
  Claim C1, as the code has it.  The integrate-and-fire neuron with threshold 1.0 and hard
  reset to 0.0, from its initial state and on the input \<open>[0.6, 0.6, 0.6, 0.6]\<close>, outputs the
  spikes \<open>[0, 1, 0, 1]\<close> and ends with the membrane potential 0.0 at every position: the
  last step fires, and the hard reset puts the potential at \<open>v_reset\<close>.  This holds for
  four single-step calls and for one multi-step call, in training mode (torch backend)
  and in evaluation mode.
\<close>

theorem IFNode_scenario_spikes_and_final_v:
  "sequential_single_steps (IFNode_single_step_forward cupy_ss) scenario_if_node scenario_x_seq
     = Inr ([\<lambda>i. 0, \<lambda>i. 1, \<lambda>i. 0, \<lambda>i. 1], scenario_if_node\<lparr>v := Tensor_mem (\<lambda>i. 0)\<rparr>)
   \<and> sequential_single_steps (IFNode_single_step_forward cupy_ss)
       (scenario_if_node\<lparr>training := False\<rparr>) scenario_x_seq
     = Inr ([\<lambda>i. 0, \<lambda>i. 1, \<lambda>i. 0, \<lambda>i. 1],
            scenario_if_node\<lparr>training := False, v := Tensor_mem (\<lambda>i. 0)\<rparr>)
   \<and> IFNode_multi_step_forward cupy_ss cupy_ms scenario_if_node scenario_x_seq
     = Inr ([\<lambda>i. 0, \<lambda>i. 1, \<lambda>i. 0, \<lambda>i. 1], scenario_if_node\<lparr>v := Tensor_mem (\<lambda>i. 0)\<rparr>)
   \<and> IFNode_multi_step_forward cupy_ss cupy_ms (scenario_if_node\<lparr>training := False\<rparr>)
       scenario_x_seq
     = Inr ([\<lambda>i. 0, \<lambda>i. 1, \<lambda>i. 0, \<lambda>i. 1],
            scenario_if_node\<lparr>training := False, v := Tensor_mem (\<lambda>i. 0)\<rparr>)"
  by (simp only: scenario_train_single scenario_eval_single scenario_train_multi
        scenario_eval_multi simp_thms)

text \<open>
  Claim C1 as stated fails: no run of the scenario ends with the membrane potential 0.2.
\<close>

theorem IFNode_scenario_final_v_is_not_0_2:
  "\<not> (\<exists>y_seq self1.
         IFNode_multi_step_forward cupy_missing cupy_missing
             (scenario_if_node :: unit base_node) scenario_x_seq = Inr (y_seq, self1)
         \<and> as_tensor (v self1) () = 2 / 10)
   \<and> \<not> (\<exists>y_seq self1.
         sequential_single_steps (IFNode_single_step_forward cupy_missing)
             (scenario_if_node :: unit base_node) scenario_x_seq = Inr (y_seq, self1)
         \<and> as_tensor (v self1) () = 2 / 10)"
  by (simp add: scenario_train_single scenario_train_multi as_tensor_def)

section \<open>Claim C10: what a step of OTTTLIFNode returns\<close>


lemma OTTTLIFNode_eval_step:
  assumes "\<not> otttlif_node.training self"
  shows "\<exists>spike self1.
           OTTTLIFNode_single_step_forward self x = Inr (Spike_only spike, self1)
         \<and> otttlif_node.trace self1 = otttlif_node.trace self"
  using assms
  by (cases "otttlif_node.v self"; cases "otttlif_node.v_reset self";
      cases "otttlif_node.decay_input self")
     (simp_all add: OTTTLIFNode_single_step_forward_def Let_def split_beta)



section \<open>Claim C8: what the constructors validate\<close>

text \<open>
  Claim C8, as the code has it.  The constructors of QIFNode and EIFNode raise
  \<open>AssertionError\<close> when the reset is hard and \<open>v_rest < v_reset\<close> or
  \<open>v_threshold \<le> v_reset\<close>; the constructors of LIFNode, ParametricLIFNode, QIFNode,
  EIFNode, IzhikevichNode, KLIFNode and OTTTLIFNode raise \<open>AssertionError\<close> when the time
  constant is at most 1.  Otherwise QIFNode and EIFNode construct as soon as \<open>a0\<close>
  (\<open>delta_T\<close>) is positive, and IzhikevichNode constructs whenever \<open>tau > 1\<close> and
  \<open>a0 > 0\<close>: it compares neither \<open>v_rest\<close> nor \<open>v_threshold\<close> with \<open>v_reset\<close>.
\<close>

theorem constructors_validate_parameters:
  shows "(vr = Some r \<and> (v_rest' < r \<or> th \<le> r) \<longrightarrow>
            (QIFNode_init tau' v_c' a0' th v_rest' vr sg dr sm be sv
               :: error + 'i qif_node) = Inl AssertionError
          \<and> (EIFNode_init tau' delta_T' theta_rh' th v_rest' vr sg dr sm be sv
               :: error + 'i eif_node) = Inl AssertionError)
       \<and> (tau' \<le> 1 \<longrightarrow>
            (LIFNode_init tau' di th vr sg dr sm be sv :: error + 'i lif_node)
               = Inl AssertionError
          \<and> (ParametricLIFNode_init tau' di th vr sg dr sm be sv :: error + 'i plif_node)
               = Inl AssertionError
          \<and> (QIFNode_init tau' v_c' a0' th v_rest' vr sg dr sm be sv :: error + 'i qif_node)
               = Inl AssertionError
          \<and> (EIFNode_init tau' delta_T' theta_rh' th v_rest' vr sg dr sm be sv
               :: error + 'i eif_node) = Inl AssertionError
          \<and> (IzhikevichNode_init tau' v_c' a0' th vr v_rest' w_rest' tau_w' a' b' sg dr sm be sv
               :: error + 'i izhikevich_node) = Inl AssertionError
          \<and> (KLIFNode_init sr tau' di th vr sg dr sm be sv :: error + 'i klif_node)
               = Inl AssertionError
          \<and> (OTTTLIFNode_init tau' di th vr sg dr sm be sv :: error + 'i otttlif_node)
               = Inl AssertionError)
       \<and> (1 < tau' \<and> 0 < a0' \<and> (\<forall>r0. vr = Some r0 \<longrightarrow> r0 < th \<and> r0 \<le> v_rest') \<longrightarrow>
            (\<exists>n. (QIFNode_init tau' v_c' a0' th v_rest' vr sg dr sm be sv
                     :: error + 'i qif_node) = Inr n))
       \<and> (1 < tau' \<and> 0 < delta_T' \<and> (\<forall>r0. vr = Some r0 \<longrightarrow> r0 < th \<and> r0 \<le> v_rest') \<longrightarrow>
            (\<exists>n. (EIFNode_init tau' delta_T' theta_rh' th v_rest' vr sg dr sm be sv
                     :: error + 'i eif_node) = Inr n))
       \<and> (1 < tau' \<and> 0 < a0' \<longrightarrow>
            (\<exists>n. (IzhikevichNode_init tau' v_c' a0' th vr v_rest' w_rest' tau_w' a' b'
                      sg dr sm be sv :: error + 'i izhikevich_node) = Inr n))"
  by (cases vr)
     (auto simp add: QIFNode_init_def EIFNode_init_def LIFNode_init_def
        ParametricLIFNode_init_def IzhikevichNode_init_def KLIFNode_init_def
        OTTTLIFNode_init_def)

theorem constructors_validate_parameters_witness:
  "(QIFNode_init 2 (4 / 5) 1 1 (- 1) (Some 0) heaviside False ''s'' ''torch'' False
      :: error + unit qif_node) = Inl AssertionError
   \<and> (EIFNode_init 2 1 (4 / 5) 1 (- 1) (Some 0) heaviside False ''s'' ''torch'' False
      :: error + unit eif_node) = Inl AssertionError
   \<and> (LIFNode_init 1 True 1 (Some 0) heaviside False ''s'' ''torch'' False
      :: error + unit lif_node) = Inl AssertionError
   \<and> (IzhikevichNode_init 1 (4 / 5) 1 1 (Some 0) (- 1 / 10) 0 2 0 0 heaviside False ''s''
        ''torch'' False :: error + unit izhikevich_node) = Inl AssertionError
   \<and> (\<exists>n. (QIFNode_init 2 (4 / 5) 1 1 0 (Some 0) heaviside False ''s'' ''torch'' False
      :: error + unit qif_node) = Inr n)"
  using constructors_validate_parameters
          [where 'i = unit and vr = "Some 0" and r = 0 and v_rest' = "- 1" and th = 1
             and tau' = 2 and a0' = 1 and v_c' = "4 / 5" and delta_T' = 1
             and theta_rh' = "4 / 5" and sg = heaviside and dr = False and sm = "''s''"
             and be = "''torch''" and sv = False]
        constructors_validate_parameters
          [where 'i = unit and vr = "Some 0" and r = 0 and v_rest' = "- 1 / 10" and th = 1
             and tau' = 1 and a0' = 1 and v_c' = "4 / 5" and di = True and w_rest' = 0
             and tau_w' = 2 and a' = 0 and b' = 0 and sg = heaviside and dr = False
             and sm = "''s''" and be = "''torch''" and sv = False]
        constructors_validate_parameters
          [where 'i = unit and vr = "Some 0" and v_rest' = 0 and th = 1
             and tau' = 2 and a0' = 1 and v_c' = "4 / 5" and sg = heaviside and dr = False
             and sm = "''s''" and be = "''torch''" and sv = False]
  by simp

text \<open>
  Claim C8 as stated fails on IzhikevichNode: with hard reset to \<open>v_reset = 0.0\<close> and
  \<open>v_rest = -0.1 < v_reset\<close>, which are the default arguments of its constructor, the
  object is constructed and no error is raised.
\<close>

theorem IzhikevichNode_constructs_with_v_rest_below_v_reset:
  "(IzhikevichNode_init 2 (4 / 5) 1 1 (Some 0) (- 1 / 10) 0 2 0 0 heaviside False ''s''
      ''torch'' False :: error + unit izhikevich_node)
     = Inr (adapt_base_node.extend
              (AdaptBaseNode_init 1 (Some 0) (- 1 / 10) 0 2 0 0 heaviside False ''s''
                 ''torch'' False)
              (izhikevich_node.fields 2 (4 / 5) 1))
   \<and> v_reset (projr (IzhikevichNode_init 2 (4 / 5) 1 1 (Some 0) (- 1 / 10) 0 2 0 0 heaviside
        False ''s'' ''torch'' False :: error + unit izhikevich_node)) = Some 0
   \<and> adapt_base_node.v_rest (projr (IzhikevichNode_init 2 (4 / 5) 1 1 (Some 0) (- 1 / 10) 0 2
        0 0 heaviside False ''s'' ''torch'' False :: error + unit izhikevich_node)) = - 1 / 10"
  by (simp add: IzhikevichNode_init_def AdaptBaseNode_init_def BaseNode_init_def
        base_node.defs adapt_base_node.defs izhikevich_node.defs)

section \<open>Claim C9: a backend that is not supported\<close>

lemma IFNode_eval_single_returns:
  assumes "\<not> training self"
  shows "\<exists>y s1. IFNode_single_step_forward cupy_ss self x = Inr (y, s1)"
  using assms
  by (cases "v_reset self")
     (simp_all add: IFNode_single_step_forward_def Let_def split_beta)

lemma LIFNode_eval_single_returns:
  assumes "\<not> training self"
  shows "\<exists>y s1. LIFNode_single_step_forward cupy_ss self x = Inr (y, s1)"
  using assms
  by (cases "v_reset self"; cases "lif_node.decay_input self")
     (simp_all add: LIFNode_single_step_forward_def Let_def split_beta)

lemma IFNode_eval_multi_returns:
  assumes "\<not> training self" and "x_seq \<noteq> []"
  shows "\<exists>y s1. IFNode_multi_step_forward cupy_ss cupy_ms self x_seq = Inr (y, s1)"
  using assms
  by (cases x_seq; cases "v_reset self"; cases "store_v_seq self")
     (simp_all add: IFNode_multi_step_forward_def Let_def split_beta)

lemma LIFNode_eval_multi_returns:
  assumes "\<not> training self" and "x_seq \<noteq> []"
  shows "\<exists>y s1. LIFNode_multi_step_forward cupy_ss cupy_ms self x_seq = Inr (y, s1)"
  using assms
  by (cases x_seq; cases "v_reset self"; cases "store_v_seq self";
      cases "lif_node.decay_input self")
     (simp_all add: LIFNode_multi_step_forward_def Let_def split_beta)

lemma unsupported_backend_training:
  fixes self :: "('i, 'm) base_node_scheme" and lif :: "('i, 'n) lif_node_scheme"
  shows "IFNode_supported_backends self = Inr bs1 \<Longrightarrow> backend self \<notin> set bs1
           \<Longrightarrow> training self
           \<Longrightarrow> IFNode_single_step_forward cupy_ss self x = Inl (ValueError (backend self))
             \<and> IFNode_multi_step_forward cupy_ss cupy_ms self x_seq
                 = Inl (ValueError (backend self))"
    and "LIFNode_supported_backends lif = Inr bs2 \<Longrightarrow> backend lif \<notin> set bs2
           \<Longrightarrow> training lif
           \<Longrightarrow> LIFNode_single_step_forward lif_cupy_ss lif x = Inl (ValueError (backend lif))
             \<and> LIFNode_multi_step_forward lif_cupy_ss lif_cupy_ms lif x_seq
                 = Inl (ValueError (backend lif))"
  by (auto simp add: IFNode_supported_backends_def LIFNode_supported_backends_def
        IFNode_single_step_forward_def IFNode_multi_step_forward_def
        LIFNode_single_step_forward_def LIFNode_multi_step_forward_def split: if_splits)

lemma unsupported_backend_plif_ottt:
  fixes plif :: "('i, 'p) plif_node_scheme" and ottt :: "'i otttlif_node"
  shows "step_mode plif = ''m'' \<Longrightarrow> ParametricLIFNode_supported_backends plif = Inr bs3
           \<Longrightarrow> backend plif \<notin> set bs3
           \<Longrightarrow> ParametricLIFNode_multi_step_forward plif_cupy_ms plif x_seq
                 = Inl (ValueError (backend plif))"
    and "OTTTLIFNode_supported_backends ottt = Inr bs4
           \<Longrightarrow> otttlif_node.backend ottt \<notin> set bs4 \<Longrightarrow> otttlif_node.training ottt
           \<Longrightarrow> OTTTLIFNode_single_step_forward ottt x
                 = Inl (ValueError (otttlif_node.backend ottt))"
   apply (auto simp add: ParametricLIFNode_supported_backends_def
        ParametricLIFNode_multi_step_forward_def split: if_splits)[1]
  apply (cases "otttlif_node.v ottt"; cases "otttlif_node.v_reset ottt";
      cases "otttlif_node.trace ottt")
         apply (auto simp add: OTTTLIFNode_supported_backends_def
        OTTTLIFNode_single_step_forward_def Let_def split: if_splits)
  done

text \<open>
  Claim C9, as the code has it.  In training mode, \<open>single_step_forward\<close> and
  \<open>multi_step_forward\<close> of IFNode and of LIFNode raise \<open>ValueError\<close> with the name of the
  backend when the backend is not one of the supported ones; so does
  \<open>multi_step_forward\<close> of ParametricLIFNode in the multi-step mode, in training and in
  evaluation mode, and \<open>single_step_forward\<close> of OTTTLIFNode in training mode.  In
  evaluation mode IFNode, LIFNode and OTTTLIFNode run the jit kernels and return a result
  without reading the backend, and \<open>single_step_forward\<close> of ParametricLIFNode, which is
  that of BaseNode, returns a result whatever the backend is.
\<close>

theorem unsupported_backend_raises_in_training_mode:
  fixes self :: "('i, 'm) base_node_scheme" and lif :: "('i, 'n) lif_node_scheme"
    and plif :: "('i, 'p) plif_node_scheme" and ottt :: "'i otttlif_node"
  shows "(IFNode_supported_backends self = Inr bs1 \<and> backend self \<notin> set bs1 \<and> training self
            \<longrightarrow> IFNode_single_step_forward cupy_ss self x = Inl (ValueError (backend self))
              \<and> IFNode_multi_step_forward cupy_ss cupy_ms self x_seq
                  = Inl (ValueError (backend self)))
       \<and> (LIFNode_supported_backends lif = Inr bs2 \<and> backend lif \<notin> set bs2 \<and> training lif
            \<longrightarrow> LIFNode_single_step_forward lif_cupy_ss lif x = Inl (ValueError (backend lif))
              \<and> LIFNode_multi_step_forward lif_cupy_ss lif_cupy_ms lif x_seq
                  = Inl (ValueError (backend lif)))
       \<and> (step_mode plif = ''m'' \<and> ParametricLIFNode_supported_backends plif = Inr bs3
            \<and> backend plif \<notin> set bs3
            \<longrightarrow> ParametricLIFNode_multi_step_forward plif_cupy_ms plif x_seq
                  = Inl (ValueError (backend plif)))
       \<and> (OTTTLIFNode_supported_backends ottt = Inr bs4
            \<and> otttlif_node.backend ottt \<notin> set bs4 \<and> otttlif_node.training ottt
            \<longrightarrow> OTTTLIFNode_single_step_forward ottt x
                  = Inl (ValueError (otttlif_node.backend ottt)))
       \<and> (\<not> training self
            \<longrightarrow> (\<exists>y s1. IFNode_single_step_forward cupy_ss self x = Inr (y, s1))
              \<and> (x_seq \<noteq> []
                   \<longrightarrow> (\<exists>y_seq s1. IFNode_multi_step_forward cupy_ss cupy_ms self x_seq
                                     = Inr (y_seq, s1))))
       \<and> (\<not> training lif
            \<longrightarrow> (\<exists>y s1. LIFNode_single_step_forward lif_cupy_ss lif x = Inr (y, s1))
              \<and> (x_seq \<noteq> []
                   \<longrightarrow> (\<exists>y_seq s1. LIFNode_multi_step_forward lif_cupy_ss lif_cupy_ms lif x_seq
                                     = Inr (y_seq, s1))))
       \<and> (\<exists>y s1. ParametricLIFNode_single_step_forward plif x = Inr (y, s1))
       \<and> (\<not> otttlif_node.training ottt
            \<longrightarrow> (\<exists>y s1. OTTTLIFNode_single_step_forward ottt x = Inr (Spike_only y, s1)))"
proof -
  have plif_single: "\<exists>y s1. ParametricLIFNode_single_step_forward plif x = Inr (y, s1)"
    by (simp add: ParametricLIFNode_single_step_forward_def prod_eq_iff)
  show ?thesis
    using unsupported_backend_training(1) [of self bs1 cupy_ss x cupy_ms x_seq]
      unsupported_backend_training(2) [of lif bs2 lif_cupy_ss x lif_cupy_ms x_seq]
      unsupported_backend_plif_ottt(1) [of plif bs3 plif_cupy_ms x_seq]
      unsupported_backend_plif_ottt(2) [of ottt bs4 x]
      IFNode_eval_single_returns [of self cupy_ss x]
      IFNode_eval_multi_returns [of self x_seq cupy_ss cupy_ms]
      LIFNode_eval_single_returns [of lif lif_cupy_ss x]
      LIFNode_eval_multi_returns [of lif x_seq lif_cupy_ss lif_cupy_ms]
      OTTTLIFNode_eval_step [of ottt x] plif_single
    by blast
qed

theorem unsupported_backend_raises_in_training_mode_witness:
  "IFNode_single_step_forward cupy_missing
      ((scenario_if_node :: unit base_node)\<lparr>backend := ''tensorrt''\<rparr>) (\<lambda>i. 1)
     = Inl (ValueError ''tensorrt'')
   \<and> IFNode_multi_step_forward cupy_missing cupy_missing
      ((scenario_if_node :: unit base_node)\<lparr>backend := ''tensorrt''\<rparr>) [\<lambda>i. 1]
     = Inl (ValueError ''tensorrt'')
   \<and> LIFNode_single_step_forward cupy_missing
      ((example_lif_node :: unit lif_node)\<lparr>backend := ''tensorrt''\<rparr>) (\<lambda>i. 1)
     = Inl (ValueError ''tensorrt'')
   \<and> LIFNode_multi_step_forward cupy_missing cupy_missing
      ((example_lif_node :: unit lif_node)\<lparr>backend := ''tensorrt''\<rparr>) [\<lambda>i. 1]
     = Inl (ValueError ''tensorrt'')
   \<and> ParametricLIFNode_multi_step_forward cupy_missing
      ((example_plif_node :: unit plif_node)\<lparr>backend := ''tensorrt''\<rparr>) [\<lambda>i. 1]
     = Inl (ValueError ''tensorrt'')
   \<and> OTTTLIFNode_single_step_forward
      ((example_ottt_node :: unit otttlif_node)\<lparr>otttlif_node.backend := ''cupy''\<rparr>) (\<lambda>i. 1)
     = Inl (ValueError ''cupy'')
   \<and> (\<exists>y s1. IFNode_single_step_forward cupy_missing
      ((scenario_if_node :: unit base_node)\<lparr>backend := ''tensorrt'', training := False\<rparr>)
      (\<lambda>i. 1) = Inr (y, s1))"
proof -
  have h1: "IFNode_supported_backends
              ((scenario_if_node :: unit base_node)\<lparr>backend := ''tensorrt''\<rparr>)
              = Inr [''torch'', ''cupy'']
          \<and> backend ((scenario_if_node :: unit base_node)\<lparr>backend := ''tensorrt''\<rparr>)
              \<notin> set [''torch'', ''cupy'']
          \<and> training ((scenario_if_node :: unit base_node)\<lparr>backend := ''tensorrt''\<rparr>)"
    by (simp add: IFNode_supported_backends_def scenario_if_node_def IFNode_init_def
          BaseNode_init_def)
  have h2: "LIFNode_supported_backends
              ((example_lif_node :: unit lif_node)\<lparr>backend := ''tensorrt''\<rparr>)
              = Inr [''torch'', ''cupy'']
          \<and> backend ((example_lif_node :: unit lif_node)\<lparr>backend := ''tensorrt''\<rparr>)
              \<notin> set [''torch'', ''cupy'']
          \<and> training ((example_lif_node :: unit lif_node)\<lparr>backend := ''tensorrt''\<rparr>)"
    by (simp add: LIFNode_supported_backends_def example_lif_node_def LIFNode_init_def
          BaseNode_init_def base_node.defs lif_node.defs)
  have h3: "step_mode ((example_plif_node :: unit plif_node)\<lparr>backend := ''tensorrt''\<rparr>) = ''m''
          \<and> ParametricLIFNode_supported_backends
              ((example_plif_node :: unit plif_node)\<lparr>backend := ''tensorrt''\<rparr>)
              = Inr [''torch'', ''cupy'']
          \<and> backend ((example_plif_node :: unit plif_node)\<lparr>backend := ''tensorrt''\<rparr>)
              \<notin> set [''torch'', ''cupy'']"
    by (simp add: ParametricLIFNode_supported_backends_def example_plif_node_def
          ParametricLIFNode_init_def BaseNode_init_def base_node.defs plif_node.defs)
  have h4: "OTTTLIFNode_supported_backends
              ((example_ottt_node :: unit otttlif_node)\<lparr>otttlif_node.backend := ''cupy''\<rparr>)
              = Inr [''torch'']
          \<and> otttlif_node.backend
              ((example_ottt_node :: unit otttlif_node)\<lparr>otttlif_node.backend := ''cupy''\<rparr>)
              \<notin> set [''torch'']
          \<and> otttlif_node.training
              ((example_ottt_node :: unit otttlif_node)\<lparr>otttlif_node.backend := ''cupy''\<rparr>)"
    by (simp add: OTTTLIFNode_supported_backends_def example_ottt_node_def
          OTTTLIFNode_init_def)
  have h5: "\<not> training ((scenario_if_node :: unit base_node)
                          \<lparr>backend := ''tensorrt'', training := False\<rparr>)"
    by simp
  have b1: "backend ((scenario_if_node :: unit base_node)\<lparr>backend := ''tensorrt''\<rparr>)
              = ''tensorrt''"
    and b2: "backend ((example_lif_node :: unit lif_node)\<lparr>backend := ''tensorrt''\<rparr>)
              = ''tensorrt''"
    and b3: "backend ((example_plif_node :: unit plif_node)\<lparr>backend := ''tensorrt''\<rparr>)
              = ''tensorrt''"
    and b4: "otttlif_node.backend
              ((example_ottt_node :: unit otttlif_node)\<lparr>otttlif_node.backend := ''cupy''\<rparr>)
              = ''cupy''"
    by simp_all
  show ?thesis
    using unsupported_backend_raises_in_training_mode
            [where self = "(scenario_if_node :: unit base_node)\<lparr>backend := ''tensorrt''\<rparr>"
               and lif = "(example_lif_node :: unit lif_node)\<lparr>backend := ''tensorrt''\<rparr>"
               and plif = "(example_plif_node :: unit plif_node)\<lparr>backend := ''tensorrt''\<rparr>"
               and ottt = "(example_ottt_node :: unit otttlif_node)
                             \<lparr>otttlif_node.backend := ''cupy''\<rparr>"
               and ?bs1.0 = "[''torch'', ''cupy'']" and ?bs2.0 = "[''torch'', ''cupy'']"
               and ?bs3.0 = "[''torch'', ''cupy'']" and ?bs4.0 = "[''torch'']"
               and cupy_ss = cupy_missing and cupy_ms = cupy_missing
               and lif_cupy_ss = cupy_missing and lif_cupy_ms = cupy_missing
               and plif_cupy_ms = cupy_missing and x = "\<lambda>i. 1" and x_seq = "[\<lambda>i. 1]"]
          unsupported_backend_raises_in_training_mode
            [where self = "(scenario_if_node :: unit base_node)
                             \<lparr>backend := ''tensorrt'', training := False\<rparr>"
               and cupy_ss = cupy_missing and x = "\<lambda>i. 1"]
          h1 h2 h3 h4 h5
    unfolding b1 b2 b3 b4
    by blast
qed

text \<open>
  Claim C9 as stated fails on ParametricLIFNode: an object built for the multi-step mode
  with the cupy backend and then switched to the single-step mode has a backend that is
  not among the supported backends of that mode, \<open>('torch',)\<close>, and a single step on the
  input 3 raises nothing: it runs the torch code and returns the spike 1.
\<close>

theorem ParametricLIFNode_single_step_runs_with_unsupported_backend:
  "ParametricLIFNode_supported_backends
      ((example_plif_node :: unit plif_node)\<lparr>step_mode := ''s''\<rparr>) = Inr [''torch'']
   \<and> backend ((example_plif_node :: unit plif_node)\<lparr>step_mode := ''s''\<rparr>) = ''cupy''
   \<and> ParametricLIFNode_single_step_forward
        ((example_plif_node :: unit plif_node)\<lparr>step_mode := ''s''\<rparr>) (\<lambda>i. 3)
       = Inr (\<lambda>i. 1, (example_plif_node :: unit plif_node)
                        \<lparr>step_mode := ''s'', v := Tensor_mem (\<lambda>i. 0)\<rparr>)"
  by (simp add: example_plif_node_def ParametricLIFNode_init_def BaseNode_init_def
        base_node.defs plif_node.defs ParametricLIFNode_supported_backends_def
        ParametricLIFNode_single_step_forward_def BaseNode_single_step_forward_def
        ParametricLIFNode_neuronal_charge_def neuronal_fire_def neuronal_reset_def
        v_float_to_tensor_def heaviside_def ge_to_def jit_hard_reset_def detach_def
        sigmoid_def full_like_def Let_def fun_eq_iff)

section \<open>Claim C7: the input gradient of the DSR neurons\<close>







section \<open>Claim C6: the charge for a reset to 0\<close>

lemma rne_pos_eval:
  fixes x :: real
  assumes "0 < x" and "2 powr of_int e0 \<le> x" and "x < 2 powr of_int (e0 + 1)"
  shows "rne p x = of_int (round_half_even (x / 2 powr of_int (e0 - int p + 1)))
                     * 2 powr of_int (e0 - int p + 1)"
proof -
  have "\<lfloor>log 2 x\<rfloor> = e0"
    using floor_log_eq_powr_iff [of x 2 e0] assms by simp
  then show ?thesis
    using assms(1) by (simp add: rne_def Let_def)
qed

lemma binary32_zero: "binary32 0 = 0"
  by (simp add: binary32_def rne_def)

lemma binary32_one: "binary32 1 = 1"
  using rne_pos_eval [of 1 0 24]
  by (simp add: binary32_def round_half_even_def powr_minus powr_numeral Let_def)

lemma binary32_three: "binary32 3 = 3"
  using rne_pos_eval [of 3 1 24]
  by (simp add: binary32_def round_half_even_def powr_minus powr_numeral Let_def)

lemma binary64_third: "binary64 (1 / 3) = 6004799503160661 / 2 ^ 54"
  using rne_pos_eval [of "1 / 3" "- 2" 53]
  by (simp add: binary64_def round_half_even_def powr_minus powr_numeral Let_def)

lemma binary64_two_thirds:
  "binary64 (1 - 6004799503160661 / 2 ^ 54) = 6004799503160662 / 2 ^ 53"
  using rne_pos_eval [of "1 - 6004799503160661 / 2 ^ 54" "- 1" 53]
  by (simp add: binary64_def round_half_even_def powr_minus powr_numeral Let_def)

lemma binary32_two_thirds:
  "binary32 (6004799503160662 / 2 ^ 53) = 11184811 / 2 ^ 24"
  using rne_pos_eval [of "6004799503160662 / 2 ^ 53" "- 1" 24]
  by (simp add: binary32_def round_half_even_def powr_minus powr_numeral Let_def)

lemma binary32_keeps_upper: "binary32 (11184811 / 2 ^ 24) = 11184811 / 2 ^ 24"
  using rne_pos_eval [of "11184811 / 2 ^ 24" "- 1" 24]
  by (simp add: binary32_def round_half_even_def powr_minus powr_numeral Let_def)

lemma binary32_third: "binary32 (1 / 3) = 11184811 / 2 ^ 25"
  using rne_pos_eval [of "1 / 3" "- 2" 24]
  by (simp add: binary32_def round_half_even_def powr_minus powr_numeral Let_def)

lemma binary32_one_minus_third:
  "binary32 (1 - 11184811 / 2 ^ 25) = 11184810 / 2 ^ 24"
  using rne_pos_eval [of "1 - 11184811 / 2 ^ 25" "- 1" 24]
  by (simp add: binary32_def round_half_even_def powr_minus powr_numeral Let_def)

lemma binary32_keeps_lower: "binary32 (11184810 / 2 ^ 24) = 11184810 / 2 ^ 24"
  using rne_pos_eval [of "11184810 / 2 ^ 24" "- 1" 24]
  by (simp add: binary32_def round_half_even_def powr_minus powr_numeral Let_def)

lemma reset0_value:
  "fl_neuronal_charge_no_decay_input_reset0 binary32 binary64 0 1 3 = 11184811 / 2 ^ 24"
  by (simp only: fl_neuronal_charge_no_decay_input_reset0_def binary64_third
        binary64_two_thirds binary32_two_thirds mult_1 binary32_keeps_upper add_0_right)

lemma general_value:
  "fl_neuronal_charge_no_decay_input binary32 0 1 0 3 = 11184810 / 2 ^ 24"
  by (simp only: fl_neuronal_charge_no_decay_input_def binary32_zero diff_zero binary32_one
        binary32_three binary32_third binary32_one_minus_third add_0_right
        binary32_keeps_lower)

text \<open>
  Claim C6, as the code has it.  With the input decayed (\<open>decay_input = True\<close>) the charge
  \<open>neuronal_charge_decay_input_reset0\<close> gives the same result as
  \<open>neuronal_charge_decay_input\<close> at \<open>v_reset = 0\<close> under every rounding that keeps 0 and the
  potential (the subtraction of 0 is exact, and all other operations are the same ones
  in the same order): the two are the same bit for bit.  In exact arithmetic the reset0
  form and the general form at \<open>v_reset = 0\<close> are equal in both modes of \<open>decay_input\<close>.
\<close>

theorem reset0_charge_equals_general_charge_at_v_reset_0:
  fixes xt :: "'i tensor"
  assumes "rnd 0 = 0" and "rnd v0 = v0" and "1 < ta"
  shows "fl_neuronal_charge_decay_input_reset0 rnd x v0 ta
           = fl_neuronal_charge_decay_input rnd x v0 0 ta
       \<and> LIFNode_neuronal_charge_decay_input_reset0 xt vt ta
           = LIFNode_neuronal_charge_decay_input xt vt 0 ta
       \<and> LIFNode_neuronal_charge_no_decay_input_reset0 xt vt ta
           = LIFNode_neuronal_charge_no_decay_input xt vt 0 ta"
proof -
  have "fl_neuronal_charge_decay_input_reset0 rnd x v0 ta
          = fl_neuronal_charge_decay_input rnd x v0 0 ta"
    by (simp add: fl_neuronal_charge_decay_input_reset0_def
          fl_neuronal_charge_decay_input_def assms(1) assms(2))
  moreover have "LIFNode_neuronal_charge_decay_input_reset0 xt vt ta
          = LIFNode_neuronal_charge_decay_input xt vt 0 ta"
    by (simp add: LIFNode_neuronal_charge_decay_input_reset0_def
          LIFNode_neuronal_charge_decay_input_def)
  moreover have "LIFNode_neuronal_charge_no_decay_input_reset0 xt vt ta
          = LIFNode_neuronal_charge_no_decay_input xt vt 0 ta"
    by (simp add: LIFNode_neuronal_charge_no_decay_input_reset0_def
          LIFNode_neuronal_charge_no_decay_input_def fun_eq_iff algebra_simps diff_divide_distrib)
  ultimately show ?thesis by simp
qed

theorem reset0_charge_equals_general_charge_at_v_reset_0_witness:
  "fl_neuronal_charge_decay_input_reset0 binary32 3 1 3
     = fl_neuronal_charge_decay_input binary32 3 1 0 3
   \<and> LIFNode_neuronal_charge_decay_input_reset0 (\<lambda>i :: unit. 3) (\<lambda>i. 1) 3
     = LIFNode_neuronal_charge_decay_input (\<lambda>i. 3) (\<lambda>i. 1) 0 3
   \<and> LIFNode_neuronal_charge_no_decay_input_reset0 (\<lambda>i :: unit. 3) (\<lambda>i. 1) 3
     = LIFNode_neuronal_charge_no_decay_input (\<lambda>i. 3) (\<lambda>i. 1) 0 3"
  using reset0_charge_equals_general_charge_at_v_reset_0
          [of binary32 1 3 3 "\<lambda>i :: unit. 3" "\<lambda>i. 1"] binary32_zero binary32_one
  by simp

text \<open>
  Claim C6 as stated fails without decay of the input (\<open>decay_input = False\<close>).  There
  the reset0 form multiplies by the constant \<open>1 - 1/tau\<close>, computed in binary64, and the
  general form divides by \<open>tau\<close> and subtracts: in binary32, for \<open>tau = 3\<close>, \<open>v = 1\<close>
  and \<open>x = 0\<close>, the reset0 form gives 11184811 / 2^24 and the general form at
  \<open>v_reset = 0\<close> gives 11184810 / 2^24, one unit in the last place apart.
\<close>

theorem no_decay_reset0_charge_differs_in_binary32:
  "fl_neuronal_charge_no_decay_input_reset0 binary32 binary64 0 1 3 = 11184811 / 2 ^ 24
   \<and> fl_neuronal_charge_no_decay_input binary32 0 1 0 3 = 11184810 / 2 ^ 24
   \<and> fl_neuronal_charge_no_decay_input_reset0 binary32 binary64 0 1 3
       \<noteq> fl_neuronal_charge_no_decay_input binary32 0 1 0 3
   \<and> binary32 0 = 0 \<and> binary32 1 = 1 \<and> binary32 3 = 3"
  by (simp add: reset0_value general_value binary32_zero binary32_one binary32_three)

end
